theory Spec2Isabelle
  imports Complex_Main "HOL-Library.Word"
begin

unbundle bit_operations_syntax

section \<open>Machine types, panics and errors\<close>

type_synonym byte = "8 word"
type_synonym uint16 = "16 word"
type_synonym uint32 = "32 word"

text \<open>
  A Go slice index outside the slice panics at run time with
  \<^verbatim>\<open>index out of range [i] with length n\<close>. A panic is the left summand of every
  result type below; it is not an \<^verbatim>\<open>error\<close> value and no caller recovers from it.
\<close>

datatype panic = IndexOutOfRange nat nat

definition index :: "'a list \<Rightarrow> nat \<Rightarrow> panic + 'a" where
  "index xs i = (if i < length xs then Inr (xs ! i) else Inl (IndexOutOfRange i (length xs)))"

definition store :: "'a list \<Rightarrow> nat \<Rightarrow> 'a \<Rightarrow> panic + 'a list" where
  "store xs i v = (if i < length xs then Inr (xs[i := v]) else Inl (IndexOutOfRange i (length xs)))"

text \<open>
  The \<^verbatim>\<open>error\<close> values of the package, one constructor per \<^verbatim>\<open>fmt.Errorf\<close> call of
  the source, carrying the arguments of its format string. \<open>TransportError\<close> stands
  for whatever error the bus implementation returns; \<^verbatim>\<open>%w\<close> wraps it.
\<close>

datatype error =
    TransportError string
  | CRCChecksumFailed byte byte
  | FailedToSendData error
  | FailedToReadData error
  | UnsupportedResponseLength
  | InvalidMeasurementInterval uint16
  | InvalidForcedRecalibrationValue uint16
  | InvalidAmbientPressure uint16

section \<open>CRC8\<close>

text \<open>
  The inner loop of \<^verbatim>\<open>computeCRC8\<close>: \<^verbatim>\<open>for i := 0; i < 8; i++\<close> over the
  accumulator \<^verbatim>\<open>crc\<close>. The shift is on \<^verbatim>\<open>uint8\<close>, so the top bit falls off.
\<close>

function crc8_bits :: "int \<Rightarrow> byte \<Rightarrow> byte" where
  "crc8_bits i crc =
     (if i < 8
      then crc8_bits (i + 1)
             (if crc AND 0x80 \<noteq> 0 then push_bit 1 crc XOR 0x31 else push_bit 1 crc)
      else crc)"
  by pat_completeness auto
termination
  by (relation "measure (\<lambda>(i, crc). nat (8 - i))") auto

declare crc8_bits.simps [simp del]

text \<open>
  The outer loop: \<^verbatim>\<open>for x := uint8(0); x < l; x++ { crc ^= data[x]; ... }\<close>. The
  counter is a \<^verbatim>\<open>uint8\<close>; \<^verbatim>\<open>data[x]\<close> panics when \<^verbatim>\<open>x\<close> is not below
  \<^verbatim>\<open>len(data)\<close>.
\<close>

function crc8_bytes :: "byte list \<Rightarrow> byte \<Rightarrow> byte \<Rightarrow> byte \<Rightarrow> panic + byte" where
  "crc8_bytes data l x crc =
     (if x < l
      then (case index data (unat x) of
              Inl p \<Rightarrow> Inl p
            | Inr b \<Rightarrow> crc8_bytes data l (x + 1) (crc8_bits 0 (crc XOR b)))
      else Inr crc)"
  by pat_completeness auto
termination
proof (relation "measure (\<lambda>(data, l, x, crc). unat l - unat x)")
  show "wf (measure (\<lambda>(data, l, x, crc). unat l - unat x))"
    by simp
next
  fix data :: "byte list" and l x crc b :: byte
  assume "x < l"
  then have "unat l - unat (x + 1) < unat l - unat x"
    by unat_arith
  then show "((data, l, x + 1, crc8_bits 0 (crc XOR b)), (data, l, x, crc))
               \<in> measure (\<lambda>(data, l, x, crc). unat l - unat x)"
    by simp
qed

declare crc8_bytes.simps [simp del]

definition computeCRC8 :: "byte list \<Rightarrow> byte \<Rightarrow> panic + byte" where
  "computeCRC8 data l = crc8_bytes data l 0 0xFF"

text \<open>
  \<^verbatim>\<open>checkCRC8\<close>: the length is cut to \<^verbatim>\<open>uint8\<close>, and \<^verbatim>\<open>l-1\<close> is computed in
  \<^verbatim>\<open>uint8\<close>, so it is 255 for \<^verbatim>\<open>l = 0\<close>.
\<close>

definition checkCRC8 :: "byte list \<Rightarrow> panic + error option" where
  "checkCRC8 data =
     (let l = (of_nat (length data) :: byte) in
      case index data (unat (l - 1)) of
        Inl p \<Rightarrow> Inl p
      | Inr expectedCRC \<Rightarrow>
          (case computeCRC8 data (l - 1) of
             Inl p \<Rightarrow> Inl p
           | Inr crc \<Rightarrow>
               if crc \<noteq> expectedCRC
               then Inr (Some (CRCChecksumFailed expectedCRC crc))
               else Inr None))"

section \<open>Registers\<close>

definition I2C_ADDRESS :: byte where "I2C_ADDRESS = 0x61"

definition CMD_READ_VERSION :: uint16 where "CMD_READ_VERSION = 0xD100"
definition CMD_READ_DATA_READY :: uint16 where "CMD_READ_DATA_READY = 0x0202"
definition CMD_READ_MEASUREMENT :: uint16 where "CMD_READ_MEASUREMENT = 0x0300"

definition CMD_SOFT_RESET :: uint16 where "CMD_SOFT_RESET = 0xD304"
definition CMD_START_CONTINUOUS_MEASUREMENT :: uint16 where
  "CMD_START_CONTINUOUS_MEASUREMENT = 0x0010"
definition CMD_STOP_CONTINUOUS_MEASUREMENT :: uint16 where
  "CMD_STOP_CONTINUOUS_MEASUREMENT = 0x0104"

definition CMD_MEASUREMENT_INTERVAL :: uint16 where "CMD_MEASUREMENT_INTERVAL = 0x4600"
definition CMD_ALTITUDE_COMPENSATION :: uint16 where "CMD_ALTITUDE_COMPENSATION = 0x5102"
definition CMD_FORCED_RECALIBRATION_VALUE :: uint16 where
  "CMD_FORCED_RECALIBRATION_VALUE = 0x5204"
definition CMD_SELF_CALIBRATION :: uint16 where "CMD_SELF_CALIBRATION = 0x5306"
definition CMD_TEMPERATURE_OFFSET :: uint16 where "CMD_TEMPERATURE_OFFSET = 0x5403"

definition HAS_DATA_READY :: uint16 where "HAS_DATA_READY = 0x0001"
definition SELF_CALIBRATION_ENABLED :: uint16 where "SELF_CALIBRATION_ENABLED = 0x0001"
definition SELF_CALIBRATION_DISABLED :: uint16 where "SELF_CALIBRATION_DISABLED = 0x0000"

definition STOP_CONTINUOUS_MEASUREMENT :: uint16 where "STOP_CONTINUOUS_MEASUREMENT = 0x0001"
definition RESET :: uint16 where "RESET = 0x0001"

section \<open>The Measurement value\<close>

text \<open>
  A \<^verbatim>\<open>float32\<close> is represented by its 32 bits: \<^verbatim>\<open>math.Float32frombits\<close> only
  reinterprets the bits of a \<^verbatim>\<open>uint32\<close>, and no arithmetic is done on the floats.
  \<open>float32_value\<close> reads the bits as IEEE-754 binary32 (1 sign bit, 8 exponent bits
  biased by 127, 23 fraction bits); infinities and NaNs have no real value.
\<close>

datatype float32 = Float32frombits (Float32bits: uint32)

definition float32_value :: "float32 \<Rightarrow> real option" where
  "float32_value f =
     (let b = Float32bits f;
          e = unat (drop_bit 23 b AND 0xFF);
          m = unat (b AND 0x7FFFFF);
          sign = (if bit b 31 then - 1 else 1 :: real)
      in if e = 255 then None
         else if e = 0 then Some (sign * real m / 2 ^ 149)
         else if 150 \<le> e then Some (sign * real (2 ^ 23 + m) * 2 ^ (e - 150))
         else Some (sign * real (2 ^ 23 + m) / 2 ^ (150 - e)))"

record Measurement =
  CO2 :: float32
  Temperature :: float32
  Humidity :: float32

text \<open>The zero value of the struct: every field is \<^verbatim>\<open>+0.0\<close>, all bits clear.\<close>

definition zero_Measurement :: Measurement where
  "zero_Measurement =
     \<lparr>CO2 = Float32frombits 0, Temperature = Float32frombits 0, Humidity = Float32frombits 0\<rparr>"

section \<open>The bus\<close>

text \<open>
  \<^verbatim>\<open>I2C\<close> is an interface with one method, \<^verbatim>\<open>Tx(addr uint16, w, r []byte) error\<close>.
  Its implementation is outside the package. It is modelled as a function of the
  implementation's own state \<open>'b\<close>: given the address, the bytes to write and the
  read buffer, it returns its error (\<open>None\<close> for \<^verbatim>\<open>nil\<close>), the bytes it stored into
  the read buffer, and its next state. A callee cannot resize the caller's slice, so
  \<open>Tx\<close> below keeps the buffer's length whatever the implementation returns.

  The \<open>trace\<close> records every call made on the bus and every \<^verbatim>\<open>time.Sleep\<close>, in
  order; the driver never reads it.
\<close>

type_synonym 'b I2C =
  "'b \<Rightarrow> uint16 \<Rightarrow> byte list \<Rightarrow> byte list \<Rightarrow> error option \<times> byte list \<times> 'b"

datatype event = TxCall uint16 "byte list" nat | Sleep int

record 'b world =
  transport :: 'b
  trace :: "event list"

record 'b Device =
  Address :: byte
  ClockStretching :: int
  bus :: "'b I2C"

definition Tx ::
  "'b Device \<Rightarrow> uint16 \<Rightarrow> byte list \<Rightarrow> byte list \<Rightarrow> 'b world
     \<Rightarrow> (error option \<times> byte list) \<times> 'b world" where
  "Tx d addr w r s =
     (case bus d (transport s) addr w r of
        (err, stored, b) \<Rightarrow>
          ((err, take (length r) stored @ drop (length stored) r),
           \<lparr>transport = b, trace = trace s @ [TxCall addr w (length r)]\<rparr>))"

definition sleep :: "int \<Rightarrow> 'b world \<Rightarrow> 'b world" where
  "sleep duration s = s\<lparr>trace := trace s @ [Sleep duration]\<rparr>"

text \<open>\<^verbatim>\<open>New\<close>: the default address and a clock stretching of 150 ms, in nanoseconds.\<close>

definition New :: "'b I2C \<Rightarrow> 'b Device" where
  "New b = \<lparr>Address = I2C_ADDRESS, ClockStretching = 150 * 1000000, bus = b\<rparr>"

section \<open>The driver\<close>

text \<open>
  A Go function with results \<^verbatim>\<open>(v, err)\<close> returns the pair \<open>(v, err)\<close>, next to the
  world after the call. A function that fills a buffer of its caller returns the
  buffer's new contents next to its error.
\<close>

definition hi_byte :: "uint16 \<Rightarrow> byte" where
  "hi_byte v = ucast (drop_bit 8 v)"

definition lo_byte :: "uint16 \<Rightarrow> byte" where
  "lo_byte v = ucast (v AND 0xFF)"

definition readResponse ::
  "'b Device \<Rightarrow> uint16 \<Rightarrow> byte list \<Rightarrow> 'b world
     \<Rightarrow> (error option \<times> byte list) \<times> 'b world" where
  "readResponse d command response s =
     (case Tx d (ucast (Address d)) [hi_byte command, lo_byte command] [] s of
        ((Some err, _), s1) \<Rightarrow> ((Some (FailedToSendData err), response), s1)
      | ((None, _), s1) \<Rightarrow>
          (case Tx d (ucast (Address d)) [] response (sleep (ClockStretching d) s1) of
             ((Some err, response'), s2) \<Rightarrow> ((Some (FailedToReadData err), response'), s2)
           | ((None, response'), s2) \<Rightarrow> ((None, response'), s2)))"

definition readAndCheckResponse ::
  "'b Device \<Rightarrow> uint16 \<Rightarrow> byte list \<Rightarrow> 'b world
     \<Rightarrow> panic + ((error option \<times> byte list) \<times> 'b world)" where
  "readAndCheckResponse d command response s =
     (if length response \<noteq> 3 then Inr ((Some UnsupportedResponseLength, response), s)
      else case readResponse d command response s of
             ((Some err, response'), s') \<Rightarrow> Inr ((Some err, response'), s')
           | ((None, response'), s') \<Rightarrow>
               (case checkCRC8 response' of
                  Inl p \<Rightarrow> Inl p
                | Inr err \<Rightarrow> Inr ((err, response'), s')))"

definition writeValue ::
  "'b Device \<Rightarrow> uint16 \<Rightarrow> uint16 \<Rightarrow> 'b world \<Rightarrow> panic + (error option \<times> 'b world)" where
  "writeValue d command v s =
     (case computeCRC8 [hi_byte v, lo_byte v] 2 of
        Inl p \<Rightarrow> Inl p
      | Inr crc \<Rightarrow>
          (case Tx d (ucast (Address d))
                  [hi_byte command, lo_byte command, hi_byte v, lo_byte v, crc] [] s of
             ((Some err, _), s') \<Rightarrow> Inr (Some (FailedToSendData err), s')
           | ((None, _), s') \<Rightarrow> Inr (None, s')))"

definition SoftReset :: "'b Device \<Rightarrow> 'b world \<Rightarrow> panic + (error option \<times> 'b world)" where
  "SoftReset d s = writeValue d CMD_SOFT_RESET RESET s"

text \<open>\<^verbatim>\<open>%d\<close> of an unsigned number: its decimal digits.\<close>

fun decimal :: "nat \<Rightarrow> string" where
  "decimal n =
     (if n < 10 then [''0123456789'' ! n]
      else decimal (n div 10) @ [''0123456789'' ! (n mod 10)])"

declare decimal.simps [simp del]

text \<open>
  Every getter makes a fresh 3-byte buffer and one checked read. On an error it returns
  its named result, which nothing has assigned yet: the zero value of its type.
\<close>

definition GetSoftwareVersion ::
  "'b Device \<Rightarrow> 'b world \<Rightarrow> panic + ((string \<times> error option) \<times> 'b world)" where
  "GetSoftwareVersion d s =
     (case readAndCheckResponse d CMD_READ_VERSION (replicate 3 0) s of
        Inl p \<Rightarrow> Inl p
      | Inr ((Some err, _), s') \<Rightarrow> Inr (([], Some err), s')
      | Inr ((None, result), s') \<Rightarrow>
          (case index result 0 of
             Inl p \<Rightarrow> Inl p
           | Inr r0 \<Rightarrow>
               (case index result 1 of
                  Inl p \<Rightarrow> Inl p
                | Inr r1 \<Rightarrow>
                    Inr ((decimal (unat r0) @ ''.'' @ decimal (unat r1), None), s'))))"

definition GetMeasurementInterval ::
  "'b Device \<Rightarrow> 'b world \<Rightarrow> panic + ((uint16 \<times> error option) \<times> 'b world)" where
  "GetMeasurementInterval d s =
     (case readAndCheckResponse d CMD_MEASUREMENT_INTERVAL (replicate 3 0) s of
        Inl p \<Rightarrow> Inl p
      | Inr ((Some err, _), s') \<Rightarrow> Inr ((0, Some err), s')
      | Inr ((None, result), s') \<Rightarrow>
          (case index result 0 of
             Inl p \<Rightarrow> Inl p
           | Inr r0 \<Rightarrow>
               (case index result 1 of
                  Inl p \<Rightarrow> Inl p
                | Inr r1 \<Rightarrow>
                    (let interval = push_bit 8 (ucast r0) OR ucast r1
                     in Inr ((interval, None), s')))))"

definition SetMeasurementInterval ::
  "'b Device \<Rightarrow> uint16 \<Rightarrow> 'b world \<Rightarrow> panic + (error option \<times> 'b world)" where
  "SetMeasurementInterval d interval s =
     (if interval < 2 \<or> interval > 1800
      then Inr (Some (InvalidMeasurementInterval interval), s)
      else writeValue d CMD_MEASUREMENT_INTERVAL interval s)"

definition GetSelfCalibration ::
  "'b Device \<Rightarrow> 'b world \<Rightarrow> panic + ((bool \<times> error option) \<times> 'b world)" where
  "GetSelfCalibration d s =
     (case readAndCheckResponse d CMD_SELF_CALIBRATION (replicate 3 0) s of
        Inl p \<Rightarrow> Inl p
      | Inr ((Some err, _), s') \<Rightarrow> Inr ((False, Some err), s')
      | Inr ((None, result), s') \<Rightarrow>
          (case index result 1 of
             Inl p \<Rightarrow> Inl p
           | Inr r1 \<Rightarrow> Inr (((ucast r1 :: uint16) = SELF_CALIBRATION_ENABLED, None), s')))"

definition SetSelfCalibration ::
  "'b Device \<Rightarrow> bool \<Rightarrow> 'b world \<Rightarrow> panic + (error option \<times> 'b world)" where
  "SetSelfCalibration d enabled s =
     (if enabled then writeValue d CMD_SELF_CALIBRATION SELF_CALIBRATION_ENABLED s
      else writeValue d CMD_SELF_CALIBRATION SELF_CALIBRATION_DISABLED s)"

definition GetForcedRecalibrationValue ::
  "'b Device \<Rightarrow> 'b world \<Rightarrow> panic + ((uint16 \<times> error option) \<times> 'b world)" where
  "GetForcedRecalibrationValue d s =
     (case readAndCheckResponse d CMD_FORCED_RECALIBRATION_VALUE (replicate 3 0) s of
        Inl p \<Rightarrow> Inl p
      | Inr ((Some err, _), s') \<Rightarrow> Inr ((0, Some err), s')
      | Inr ((None, result), s') \<Rightarrow>
          (case index result 0 of
             Inl p \<Rightarrow> Inl p
           | Inr r0 \<Rightarrow>
               (case index result 1 of
                  Inl p \<Rightarrow> Inl p
                | Inr r1 \<Rightarrow>
                    (let v = push_bit 8 (ucast r0) OR ucast r1
                     in Inr ((v, None), s')))))"

definition SetForcedRecalibrationValue ::
  "'b Device \<Rightarrow> uint16 \<Rightarrow> 'b world \<Rightarrow> panic + (error option \<times> 'b world)" where
  "SetForcedRecalibrationValue d v s =
     (if v < 400 \<or> v > 2000
      then Inr (Some (InvalidForcedRecalibrationValue v), s)
      else writeValue d CMD_FORCED_RECALIBRATION_VALUE v s)"

definition GetTemperatureOffset ::
  "'b Device \<Rightarrow> 'b world \<Rightarrow> panic + ((uint16 \<times> error option) \<times> 'b world)" where
  "GetTemperatureOffset d s =
     (case readAndCheckResponse d CMD_TEMPERATURE_OFFSET (replicate 3 0) s of
        Inl p \<Rightarrow> Inl p
      | Inr ((Some err, _), s') \<Rightarrow> Inr ((0, Some err), s')
      | Inr ((None, result), s') \<Rightarrow>
          (case index result 0 of
             Inl p \<Rightarrow> Inl p
           | Inr r0 \<Rightarrow>
               (case index result 1 of
                  Inl p \<Rightarrow> Inl p
                | Inr r1 \<Rightarrow>
                    (let offset = push_bit 8 (ucast r0) OR ucast r1
                     in Inr ((offset, None), s')))))"

definition SetTemperatureOffset ::
  "'b Device \<Rightarrow> uint16 \<Rightarrow> 'b world \<Rightarrow> panic + (error option \<times> 'b world)" where
  "SetTemperatureOffset d offset s =
     writeValue d CMD_TEMPERATURE_OFFSET offset s"

definition GetAltitudeCompensation ::
  "'b Device \<Rightarrow> 'b world \<Rightarrow> panic + ((uint16 \<times> error option) \<times> 'b world)" where
  "GetAltitudeCompensation d s =
     (case readAndCheckResponse d CMD_ALTITUDE_COMPENSATION (replicate 3 0) s of
        Inl p \<Rightarrow> Inl p
      | Inr ((Some err, _), s') \<Rightarrow> Inr ((0, Some err), s')
      | Inr ((None, result), s') \<Rightarrow>
          (case index result 0 of
             Inl p \<Rightarrow> Inl p
           | Inr r0 \<Rightarrow>
               (case index result 1 of
                  Inl p \<Rightarrow> Inl p
                | Inr r1 \<Rightarrow>
                    (let altitude = push_bit 8 (ucast r0) OR ucast r1
                     in Inr ((altitude, None), s')))))"

definition SetAltitudeCompensation ::
  "'b Device \<Rightarrow> uint16 \<Rightarrow> 'b world \<Rightarrow> panic + (error option \<times> 'b world)" where
  "SetAltitudeCompensation d altitude s =
     writeValue d CMD_ALTITUDE_COMPENSATION altitude s"

definition StartContinuousMeasurement ::
  "'b Device \<Rightarrow> uint16 \<Rightarrow> 'b world \<Rightarrow> panic + (error option \<times> 'b world)" where
  "StartContinuousMeasurement d ambientPressure s =
     (if ambientPressure \<noteq> 0 \<and> (ambientPressure < 700 \<or> ambientPressure > 1200)
      then Inr (Some (InvalidAmbientPressure ambientPressure), s)
      else writeValue d CMD_START_CONTINUOUS_MEASUREMENT ambientPressure s)"

definition StopContinuousMeasurement ::
  "'b Device \<Rightarrow> 'b world \<Rightarrow> panic + (error option \<times> 'b world)" where
  "StopContinuousMeasurement d s =
     writeValue d CMD_STOP_CONTINUOUS_MEASUREMENT STOP_CONTINUOUS_MEASUREMENT s"

definition HasDataReady ::
  "'b Device \<Rightarrow> 'b world \<Rightarrow> panic + ((bool \<times> error option) \<times> 'b world)" where
  "HasDataReady d s =
     (case readAndCheckResponse d CMD_READ_DATA_READY (replicate 3 0) s of
        Inl p \<Rightarrow> Inl p
      | Inr ((Some err, _), s') \<Rightarrow> Inr ((False, Some err), s')
      | Inr ((None, result), s') \<Rightarrow>
          (case index result 1 of
             Inl p \<Rightarrow> Inl p
           | Inr r1 \<Rightarrow> Inr (((ucast r1 :: uint16) = HAS_DATA_READY, None), s')))"

text \<open>
  \<^verbatim>\<open>ReadMeasurement\<close>. The inner loop \<^verbatim>\<open>for c := 0; c < 2; c++\<close> copies the chunk
  at \<^verbatim>\<open>i\<close> out of the response, checks it and shifts its two data bytes into
  \<^verbatim>\<open>value\<close>; it carries \<^verbatim>\<open>i\<close>, \<^verbatim>\<open>chunk\<close> and \<^verbatim>\<open>value\<close>. Its result is a panic,
  the error of the early \<^verbatim>\<open>return measurement, err\<close>, or the variables after the loop.
  The three right-hand sides of the tuple assignment are read before \<^verbatim>\<open>chunk\<close> is
  written; \<^verbatim>\<open>result[i]\<close> and \<^verbatim>\<open>result[i+1]\<close> are read a second time for
  \<^verbatim>\<open>value\<close>, from a buffer nothing has written in between.
\<close>

function read_chunks ::
  "byte list \<Rightarrow> nat \<Rightarrow> nat \<Rightarrow> byte list \<Rightarrow> uint32
     \<Rightarrow> panic + (error + nat \<times> byte list \<times> uint32)" where
  "read_chunks result c i chunk value =
     (if c < 2
      then (case index result i of Inl p \<Rightarrow> Inl p | Inr r0 \<Rightarrow>
            case index result (i + 1) of Inl p \<Rightarrow> Inl p | Inr r1 \<Rightarrow>
            case index result (i + 2) of Inl p \<Rightarrow> Inl p | Inr r2 \<Rightarrow>
            case store chunk 0 r0 of Inl p \<Rightarrow> Inl p | Inr chunk0 \<Rightarrow>
            case store chunk0 1 r1 of Inl p \<Rightarrow> Inl p | Inr chunk1 \<Rightarrow>
            case store chunk1 2 r2 of Inl p \<Rightarrow> Inl p | Inr chunk2 \<Rightarrow>
            case checkCRC8 chunk2 of
              Inl p \<Rightarrow> Inl p
            | Inr (Some err) \<Rightarrow> Inr (Inl err)
            | Inr None \<Rightarrow>
                read_chunks result (c + 1) (i + 3) chunk2
                  (push_bit 8 (push_bit 8 value OR ucast r0) OR ucast r1))
      else Inr (Inr (i, chunk, value)))"
  by pat_completeness auto
termination
  by (relation "measure (\<lambda>(result, c, i, chunk, value). 2 - c)") auto

declare read_chunks.simps [simp del]

text \<open>
  The outer loop \<^verbatim>\<open>for v := 0; v < len(values); v++\<close> starts every value at 0 and
  stores the float made of its bits.
\<close>

function read_values ::
  "byte list \<Rightarrow> nat \<Rightarrow> nat \<Rightarrow> byte list \<Rightarrow> float32 list
     \<Rightarrow> panic + (error + float32 list)" where
  "read_values result v i chunk values =
     (if v < length values
      then (case read_chunks result 0 i chunk 0 of
              Inl p \<Rightarrow> Inl p
            | Inr (Inl err) \<Rightarrow> Inr (Inl err)
            | Inr (Inr (i', chunk', value)) \<Rightarrow>
                (case store values v (Float32frombits value) of
                   Inl p \<Rightarrow> Inl p
                 | Inr values' \<Rightarrow> read_values result (v + 1) i' chunk' values'))
      else Inr (Inr values))"
  by pat_completeness auto
termination
  by (relation "measure (\<lambda>(result, v, i, chunk, values). length values - v)")
     (auto simp: store_def split: if_splits)

declare read_values.simps [simp del]

definition ReadMeasurement ::
  "'b Device \<Rightarrow> 'b world \<Rightarrow> panic + ((Measurement \<times> error option) \<times> 'b world)" where
  "ReadMeasurement d s =
     (case readResponse d CMD_READ_MEASUREMENT (replicate 18 0) s of
        ((Some err, _), s') \<Rightarrow> Inr ((zero_Measurement, Some err), s')
      | ((None, result), s') \<Rightarrow>
          (case read_values result 0 0 (replicate 3 0) (replicate 3 (Float32frombits 0)) of
             Inl p \<Rightarrow> Inl p
           | Inr (Inl err) \<Rightarrow> Inr ((zero_Measurement, Some err), s')
           | Inr (Inr values) \<Rightarrow>
               (case index values 0 of Inl p \<Rightarrow> Inl p | Inr v0 \<Rightarrow>
                case index values 1 of Inl p \<Rightarrow> Inl p | Inr v1 \<Rightarrow>
                case index values 2 of Inl p \<Rightarrow> Inl p | Inr v2 \<Rightarrow>
                Inr ((\<lparr>CO2 = v0, Temperature = v1, Humidity = v2\<rparr>, None), s'))))"

text \<open>
  The text of an error, as \<^verbatim>\<open>err.Error()\<close> gives it: \<^verbatim>\<open>%d\<close> prints decimal digits,
  \<^verbatim>\<open>%x\<close> lower-case hexadecimal digits, \<^verbatim>\<open>%w\<close> the text of the wrapped error.
\<close>

fun hexadecimal :: "nat \<Rightarrow> string" where
  "hexadecimal n =
     (if n < 16 then [''0123456789abcdef'' ! n]
      else hexadecimal (n div 16) @ [''0123456789abcdef'' ! (n mod 16)])"

declare hexadecimal.simps [simp del]

fun Error :: "error \<Rightarrow> string" where
  "Error (TransportError text) = text"
| "Error (CRCChecksumFailed expectedCRC crc) =
     ''CRC checksum failed, expected: '' @ [CHR 0x27] @ hexadecimal (unat expectedCRC)
       @ [CHR 0x27] @ '', got: '' @ [CHR 0x27] @ hexadecimal (unat crc) @ [CHR 0x27]"
| "Error (FailedToSendData err) = ''failed to send data: '' @ Error err"
| "Error (FailedToReadData err) = ''failed to read data: '' @ Error err"
| "Error UnsupportedResponseLength =
     ''readAndCheckResponse only supports 3 bytes long responses (uint16+CRC8)''"
| "Error (InvalidMeasurementInterval interval) =
     ''invalid measurement interval: '' @ decimal (unat interval) @ '', expected [2-1800]s''"
| "Error (InvalidForcedRecalibrationValue v) =
     ''invalid forced recalibration value: '' @ decimal (unat v) @ '', expected [400-2000]''"
| "Error (InvalidAmbientPressure ambientPressure) =
     ''invalid ambient pressure value: '' @ decimal (unat ambientPressure)
       @ '', expected 0 or [700-1200]''"

section \<open>The specification's reference definitions\<close>

text \<open>
  The CRC8 as the specification words it: an 8-bit accumulator that starts at 0xFF;
  each of the first \<open>l\<close> bytes is exclusive-OR'd into it, and after each byte come 8
  rounds of: if the top bit is set, shift left one bit and exclusive-OR with 0x31,
  otherwise shift left one bit.
\<close>

definition crc8_round :: "byte \<Rightarrow> byte" where
  "crc8_round acc = (if bit acc 7 then push_bit 1 acc XOR 0x31 else push_bit 1 acc)"

definition crc8_reference :: "byte list \<Rightarrow> nat \<Rightarrow> byte" where
  "crc8_reference data l =
     foldl (\<lambda>acc b. (crc8_round ^^ 8) (acc XOR b)) 0xFF (take l data)"

text \<open>Four bytes, most significant first, as one big-endian 32-bit number.\<close>

definition big_endian_uint32 :: "byte \<Rightarrow> byte \<Rightarrow> byte \<Rightarrow> byte \<Rightarrow> uint32" where
  "big_endian_uint32 b3 b2 b1 b0 =
     push_bit 24 (ucast b3) OR push_bit 16 (ucast b2) OR push_bit 8 (ucast b1) OR ucast b0"

text \<open>
  Chunk \<open>k\<close> of a measurement frame is the three bytes from \<open>3 * k\<close>; it carries a
  correct CRC8 when its third byte is the checksum of the first two.
\<close>

definition chunk_crc :: "byte list \<Rightarrow> nat \<Rightarrow> panic + byte" where
  "chunk_crc frame k = computeCRC8 [frame ! (3 * k), frame ! (3 * k + 1)] 2"

definition chunk_ok :: "byte list \<Rightarrow> nat \<Rightarrow> bool" where
  "chunk_ok frame k = (chunk_crc frame k = Inr (frame ! (3 * k + 2)))"

text \<open>The frame of a write: command, value, and the CRC8 of the value's two bytes.\<close>

definition write_frame :: "uint16 \<Rightarrow> uint16 \<Rightarrow> byte list" where
  "write_frame command v =
     [hi_byte command, lo_byte command, hi_byte v, lo_byte v,
      crc8_reference [hi_byte v, lo_byte v] 2]"

section \<open>Test doubles\<close>

text \<open>
  A bus that plays a script: its state is the list of the answers still to give, and
  each call takes the next one. With the script used up it fails.
\<close>

fun scripted_bus :: "(error option \<times> byte list) list I2C" where
  "scripted_bus [] addr w r = (Some (TransportError ''no answer''), [], [])"
| "scripted_bus ((err, stored) # script) addr w r = (err, stored, script)"

definition scripted :: "(error option \<times> byte list) list \<Rightarrow> (error option \<times> byte list) list world"
  where "scripted script = \<lparr>transport = script, trace = []\<rparr>"

text \<open>
  The measurement frame of CO2 = 400.0 (bits 0x43C80000), temperature = 25.0
  (0x41C80000) and humidity = 50.0 (0x42480000), each pair of bytes followed by its CRC8.
\<close>

definition fixture_frame :: "byte list" where
  "fixture_frame =
     [0x43, 0xC8, 0xDB, 0x00, 0x00, 0x81,
      0x41, 0xC8, 0x02, 0x00, 0x00, 0x81,
      0x42, 0x48, 0x55, 0x00, 0x00, 0x81]"

text \<open>
  The same frame with the CRC8 of chunk 1 (byte 5), and with the CRC8 of chunk 3
  (byte 11), replaced by 0x00.
\<close>

definition corrupt_chunk1 :: "byte list" where
  "corrupt_chunk1 = fixture_frame[5 := 0x00]"

definition corrupt_chunk3 :: "byte list" where
  "corrupt_chunk3 = fixture_frame[11 := 0x00]"

lemmas registers =
  I2C_ADDRESS_def CMD_READ_VERSION_def CMD_READ_DATA_READY_def CMD_READ_MEASUREMENT_def
  CMD_SOFT_RESET_def CMD_START_CONTINUOUS_MEASUREMENT_def CMD_STOP_CONTINUOUS_MEASUREMENT_def
  CMD_MEASUREMENT_INTERVAL_def CMD_ALTITUDE_COMPENSATION_def CMD_FORCED_RECALIBRATION_VALUE_def
  CMD_SELF_CALIBRATION_def CMD_TEMPERATURE_OFFSET_def HAS_DATA_READY_def
  SELF_CALIBRATION_ENABLED_def SELF_CALIBRATION_DISABLED_def STOP_CONTINUOUS_MEASUREMENT_def
  RESET_def

section \<open>Properties of the CRC8\<close>

lemma top_bit: "(c AND 0x80 \<noteq> 0) = bit c 7" for c :: byte
proof -
  have "(0x80 :: byte) = 2 ^ 7" by simp
  then show ?thesis
    by (simp only: and_exp_eq_0_iff_not_bit) simp
qed

lemma crc8_bits_funpow:
  "0 \<le> i \<Longrightarrow> i \<le> 8 \<Longrightarrow> crc8_bits i crc = (crc8_round ^^ nat (8 - i)) crc"
proof (induction i crc rule: crc8_bits.induct)
  case (1 i crc)
  show ?case
  proof (cases "i < 8")
    case True
    have r: "(if crc AND 0x80 \<noteq> 0 then push_bit 1 crc XOR 0x31 else push_bit 1 crc)
             = crc8_round crc"
      by (simp only: top_bit crc8_round_def)
    have n: "nat (8 - i) = Suc (nat (8 - (i + 1)))" using True 1 by simp
    have "crc8_bits i crc = crc8_bits (i + 1) (crc8_round crc)"
      using True by (subst crc8_bits.simps) (simp only: r if_True)
    also have "\<dots> = (crc8_round ^^ nat (8 - (i + 1))) (crc8_round crc)"
      using "1.IH" [OF True] True "1.prems" by (simp add: r)
    also have "\<dots> = (crc8_round ^^ nat (8 - i)) crc"
      by (simp only: n funpow_Suc_right o_apply)
    finally show ?thesis .
  next
    case False
    with 1 show ?thesis by (subst crc8_bits.simps) simp
  qed
qed

lemma crc8_bits_0: "crc8_bits 0 crc = (crc8_round ^^ 8) crc"
  using crc8_bits_funpow [of 0 crc] by simp

lemma uint8_succ: "x < l \<Longrightarrow> unat (x + 1) = Suc (unat x)" for x l :: byte
  by unat_arith

lemma crc8_bytes_foldl:
  "unat l \<le> length data \<Longrightarrow> x \<le> l \<Longrightarrow>
   crc8_bytes data l x crc =
     Inr (foldl (\<lambda>acc b. (crc8_round ^^ 8) (acc XOR b)) crc
            (take (unat l - unat x) (drop (unat x) data)))"
proof (induction data l x crc rule: crc8_bytes.induct)
  case (1 data l x crc)
  show ?case
  proof (cases "x < l")
    case True
    then have ux: "unat x < unat l" by (simp add: word_less_nat_alt)
    with 1 have inb: "unat x < length data" by simp
    have sx: "unat (x + 1) = Suc (unat x)" using True by (rule uint8_succ)
    have le: "x + 1 \<le> l" using True by unat_arith
    have tk: "take (unat l - unat x) (drop (unat x) data)
              = data ! unat x # take (unat l - Suc (unat x)) (drop (Suc (unat x)) data)"
      using ux inb by (metis Cons_nth_drop_Suc Suc_diff_Suc take_Suc_Cons)
    have ih: "crc8_bytes data l (x + 1) (crc8_bits 0 (crc XOR data ! unat x)) =
       Inr (foldl (\<lambda>acc b. (crc8_round ^^ 8) (acc XOR b)) (crc8_bits 0 (crc XOR data ! unat x))
            (take (unat l - unat (x + 1)) (drop (unat (x + 1)) data)))"
      using "1.IH" [OF True _ "1.prems"(1) le, of "data ! unat x"] inb
      by (simp add: index_def)
    show ?thesis
      using True inb ih
      by (subst crc8_bytes.simps) (simp add: index_def sx tk crc8_bits_0)
  next
    case False
    then have "unat l - unat x = 0" using 1 by (simp add: word_less_nat_alt word_le_nat_alt)
    with False show ?thesis by (subst crc8_bytes.simps) simp
  qed
qed


lemma computeCRC8_eq:
  "unat l \<le> length data \<Longrightarrow> computeCRC8 data l = Inr (crc8_reference data (unat l))"
  using crc8_bytes_foldl [of l data 0 "0xFF"]
  by (simp add: computeCRC8_def crc8_reference_def)

text \<open>
  C2: for every byte sequence and every length not above the sequence's length,
  \<^verbatim>\<open>computeCRC8\<close> returns the reference CRC8 of the first \<open>l\<close> bytes.
\<close>

theorem computeCRC8_refines_reference:
  "unat l \<le> length data \<Longrightarrow> computeCRC8 data l = Inr (crc8_reference data (unat l))"
proof -
  assume "unat l \<le> length data"
  moreover have "(0 :: byte) \<le> l" by simp
  ultimately have "crc8_bytes data l 0 0xFF =
      Inr (foldl (\<lambda>acc b. (crc8_round ^^ 8) (acc XOR b)) 0xFF
             (take (unat l - unat (0 :: byte)) (drop (unat (0 :: byte)) data)))"
    by (rule crc8_bytes_foldl)
  then show ?thesis
    by (simp add: computeCRC8_def crc8_reference_def)
qed

theorem computeCRC8_refines_reference_witness:
  "unat (2 :: byte) \<le> length [0xBE, 0xEF, 0x92 :: byte]
   \<and> computeCRC8 [0xBE, 0xEF, 0x92] 2 = Inr (crc8_reference [0xBE, 0xEF, 0x92] (unat (2 :: byte)))
   \<and> crc8_reference [0xBE, 0xEF, 0x92] (unat (2 :: byte)) = 0x92"
proof -
  have h: "unat (2 :: byte) \<le> length [0xBE, 0xEF, 0x92 :: byte]"
    by simp
  have v: "crc8_reference [0xBE, 0xEF, 0x92] (unat (2 :: byte)) = 0x92"
    by code_simp
  from h computeCRC8_refines_reference [OF h] v show ?thesis
    by (intro conjI)
qed

text \<open>C7: the known answer, \<^verbatim>\<open>computeCRC8([0xBE, 0xEF], 2) == 0x92\<close>.\<close>

theorem computeCRC8_known_answer: "computeCRC8 [0xBE, 0xEF] 2 = Inr 0x92"
  by (simp add: computeCRC8_def crc8_bytes.simps crc8_bits.simps index_def)

lemma checkCRC8_frame:
  assumes "1 \<le> length data" and "length data \<le> 256"
  shows "checkCRC8 data =
           Inr (if crc8_reference data (length data - 1) \<noteq> data ! (length data - 1)
                then Some (CRCChecksumFailed (data ! (length data - 1))
                             (crc8_reference data (length data - 1)))
                else None)"
proof -
  define l :: byte where "l = of_nat (length data)"
  obtain n where n: "length data = Suc n"
    using assms(1) by (cases "length data") simp_all
  have "l - 1 = of_nat n"
    by (simp add: l_def n)
  then have "unat (l - 1) = n mod 2 ^ 8"
    by (simp add: unat_of_nat)
  then have u: "unat (l - 1) = length data - 1"
    using assms(2) n by simp
  have c: "computeCRC8 data (l - 1) = Inr (crc8_reference data (length data - 1))"
    using computeCRC8_eq [of "l - 1" data] u by simp
  show ?thesis
    using assms u c by (simp add: checkCRC8_def index_def l_def [symmetric])
qed

text \<open>
  C9: on the empty frame \<^verbatim>\<open>checkCRC8\<close> neither succeeds nor reports a checksum
  mismatch: \<^verbatim>\<open>l-1\<close> wraps to 255 and \<^verbatim>\<open>data[255]\<close> panics. On every frame of 1 to
  255 bytes all indexing is in bounds, so the check returns.
\<close>

theorem checkCRC8_empty_panics:
  "checkCRC8 [] = Inl (IndexOutOfRange 255 0)
   \<and> (1 \<le> length data \<and> length data \<le> 255 \<longrightarrow> (\<exists>r. checkCRC8 data = Inr r))"
proof -
  have "unat (- 1 :: byte) = 255"
    by (simp add: unsigned_minus_1_eq_mask mask_eq_exp_minus_1)
  then have "checkCRC8 [] = Inl (IndexOutOfRange 255 0)"
    by (simp add: checkCRC8_def index_def)
  moreover have "\<exists>r. checkCRC8 data = Inr r"
    if "1 \<le> length data" and "length data \<le> 255"
    using that checkCRC8_frame [of data] by simp
  ultimately show ?thesis by blast
qed

theorem checkCRC8_empty_panics_witness:
  "checkCRC8 [] = Inl (IndexOutOfRange 255 0)
   \<and> 1 \<le> length [0xBE, 0xEF, 0x92 :: byte] \<and> length [0xBE, 0xEF, 0x92 :: byte] \<le> 255
   \<and> (\<exists>r. checkCRC8 [0xBE, 0xEF, 0x92] = Inr r)"
  using checkCRC8_empty_panics [of "[0xBE, 0xEF, 0x92]"] by simp

lemma crc8_reference_append:
  "n \<le> length d \<Longrightarrow> crc8_reference (d @ e) n = crc8_reference d n"
  by (simp add: crc8_reference_def)

lemma unat_length_byte: "n \<le> 255 \<Longrightarrow> unat (of_nat n :: byte) = n"
  by (simp add: unat_of_nat)

lemma checkCRC8_append:
  assumes "length d \<le> 255"
  shows "checkCRC8 (d @ [c]) =
           Inr (if crc8_reference d (length d) \<noteq> c
                then Some (CRCChecksumFailed c (crc8_reference d (length d))) else None)"
  using assms checkCRC8_frame [of "d @ [c]"]
  by (simp add: crc8_reference_append)

text \<open>
  C3, for sequences of at most 255 bytes (the length is a \<^verbatim>\<open>uint8\<close>): the frame made
  of \<open>d\<close> and its checksum passes \<^verbatim>\<open>checkCRC8\<close>, and with any other last byte the
  check fails with the checksum error, carrying the byte found and the checksum
  computed.
\<close>

theorem checkCRC8_roundtrip:
  assumes "length d \<le> 255"
  shows "\<exists>c. computeCRC8 d (of_nat (length d)) = Inr c
             \<and> checkCRC8 (d @ [c]) = Inr None
             \<and> (\<forall>c'. c' \<noteq> c \<longrightarrow>
                   checkCRC8 (d @ [c']) = Inr (Some (CRCChecksumFailed c' c)))"
proof -
  have "computeCRC8 d (of_nat (length d)) = Inr (crc8_reference d (length d))"
    using assms computeCRC8_eq [of "of_nat (length d)" d] by (simp add: unat_length_byte)
  moreover have "checkCRC8 (d @ [crc8_reference d (length d)]) = Inr None"
    using assms by (simp add: checkCRC8_append)
  moreover have "checkCRC8 (d @ [c']) =
      Inr (Some (CRCChecksumFailed c' (crc8_reference d (length d))))"
    if "c' \<noteq> crc8_reference d (length d)" for c'
    using assms that by (auto simp add: checkCRC8_append)
  ultimately show ?thesis by blast
qed

theorem checkCRC8_roundtrip_witness:
  "length [0xBE, 0xEF :: byte] \<le> 255
   \<and> computeCRC8 [0xBE, 0xEF] (of_nat (length [0xBE, 0xEF :: byte])) = Inr 0x92
   \<and> checkCRC8 [0xBE, 0xEF, 0x92] = Inr None
   \<and> checkCRC8 [0xBE, 0xEF, 0x93] = Inr (Some (CRCChecksumFailed 0x93 0x92))"
proof -
  have h: "length [0xBE, 0xEF :: byte] \<le> 255" by simp
  have v: "computeCRC8 [0xBE, 0xEF] (of_nat (length [0xBE, 0xEF :: byte])) = Inr 0x92"
    by (simp add: computeCRC8_def crc8_bytes.simps crc8_bits.simps index_def)
  from checkCRC8_roundtrip [OF h] v
  have "checkCRC8 ([0xBE, 0xEF] @ [0x92]) = Inr None"
    and "\<forall>c'. c' \<noteq> 0x92 \<longrightarrow>
           checkCRC8 ([0xBE, 0xEF] @ [c']) = Inr (Some (CRCChecksumFailed c' 0x92))"
    by auto
  then have "checkCRC8 [0xBE, 0xEF, 0x92] = Inr None"
    and "checkCRC8 [0xBE, 0xEF, 0x93] = Inr (Some (CRCChecksumFailed 0x93 0x92))"
    by auto
  with h v show ?thesis by (intro conjI)
qed

text \<open>
  C3 as stated fails on longer sequences: for 256 zero bytes the length is cut to 0,
  the checksum of no bytes is 0xFF, and the frame of 257 bytes is checked as a frame of
  one byte: its first byte against the checksum of no bytes.
\<close>

theorem checkCRC8_roundtrip_counterexample:
  "computeCRC8 (replicate 256 0) (of_nat (length (replicate 256 (0 :: byte)))) = Inr 0xFF
   \<and> checkCRC8 (replicate 256 0 @ [0xFF]) = Inr (Some (CRCChecksumFailed 0 0xFF))"
  by (simp add: computeCRC8_def checkCRC8_def crc8_bytes.simps index_def nth_append)

section \<open>Writing a value\<close>

lemma hi_lo_byte: "push_bit 8 (ucast (hi_byte v)) OR ucast (lo_byte v) = v"
proof -
  have m: "(0xFF :: uint16) = mask 8"
    by (simp add: mask_eq_exp_minus_1)
  show ?thesis
    unfolding hi_byte_def lo_byte_def m
    by (rule bit_eqI) (auto simp add: bit_simps)
qed

lemma writeValue_eq:
  "writeValue d command v s =
     (case bus d (transport s) (ucast (Address d)) (write_frame command v) [] of
        (err, stored, b) \<Rightarrow>
          Inr (map_option FailedToSendData err,
               \<lparr>transport = b,
                trace = trace s @ [TxCall (ucast (Address d)) (write_frame command v) 0]\<rparr>))"
proof -
  have "computeCRC8 [hi_byte v, lo_byte v] 2 = Inr (crc8_reference [hi_byte v, lo_byte v] 2)"
    using computeCRC8_eq [of 2 "[hi_byte v, lo_byte v]"] by simp
  then show ?thesis
    by (simp add: writeValue_def Tx_def write_frame_def split: prod.splits option.splits)
qed

lemma writeValue_trace:
  "\<exists>err s'. writeValue d command v s = Inr (err, s')
     \<and> trace s' = trace s @ [TxCall (ucast (Address d)) (write_frame command v) 0]"
  by (simp add: writeValue_eq split: prod.splits)

text \<open>
  C5: an interval below 2 or above 1800 is refused with the error that names the
  measurement interval, the value given and the range \<open>[2-1800]\<close>, and the world is
  left as it was: nothing is sent on the bus. An interval in the range is sent in one
  transaction: command 0x4600, the two bytes of the value, high byte first, and the
  CRC8 of these two bytes.
\<close>

theorem SetMeasurementInterval_range:
  "(interval < 2 \<or> 1800 < interval \<longrightarrow>
      SetMeasurementInterval d interval s = Inr (Some (InvalidMeasurementInterval interval), s)
      \<and> Error (InvalidMeasurementInterval interval) =
          ''invalid measurement interval: '' @ decimal (unat interval) @ '', expected [2-1800]s'')
   \<and> (2 \<le> interval \<and> interval \<le> 1800 \<longrightarrow>
        (\<exists>err s'. SetMeasurementInterval d interval s = Inr (err, s')
           \<and> trace s' = trace s @
                [TxCall (ucast (Address d))
                   [0x46, 0x00, hi_byte interval, lo_byte interval,
                    crc8_reference [hi_byte interval, lo_byte interval] 2] 0])
        \<and> push_bit 8 (ucast (hi_byte interval)) OR ucast (lo_byte interval) = interval)"
proof -
  have f: "write_frame CMD_MEASUREMENT_INTERVAL interval =
             [0x46, 0x00, hi_byte interval, lo_byte interval,
              crc8_reference [hi_byte interval, lo_byte interval] 2]"
    by (simp add: write_frame_def CMD_MEASUREMENT_INTERVAL_def hi_byte_def lo_byte_def)
  have "SetMeasurementInterval d interval s = Inr (Some (InvalidMeasurementInterval interval), s)"
    if "interval < 2 \<or> 1800 < interval"
    using that by (simp add: SetMeasurementInterval_def)
  moreover have "\<exists>err s'. SetMeasurementInterval d interval s = Inr (err, s')
           \<and> trace s' = trace s @
                [TxCall (ucast (Address d))
                   [0x46, 0x00, hi_byte interval, lo_byte interval,
                    crc8_reference [hi_byte interval, lo_byte interval] 2] 0]"
    if "2 \<le> interval \<and> interval \<le> 1800"
  proof -
    from that have "SetMeasurementInterval d interval s
                      = writeValue d CMD_MEASUREMENT_INTERVAL interval s"
      by (auto simp add: SetMeasurementInterval_def)
    then show ?thesis
      using writeValue_trace [of d CMD_MEASUREMENT_INTERVAL interval s] by (simp add: f)
  qed
  ultimately show ?thesis
    by (simp add: hi_lo_byte)
qed

theorem SetMeasurementInterval_range_witness:
  "((1 :: uint16) < 2 \<or> (1800 :: uint16) < 1)
   \<and> SetMeasurementInterval (New scripted_bus) 1 (scripted [(None, [])])
       = Inr (Some (InvalidMeasurementInterval 1), scripted [(None, [])])
   \<and> ((1801 :: uint16) < 2 \<or> (1800 :: uint16) < 1801)
   \<and> SetMeasurementInterval (New scripted_bus) 1801 (scripted [(None, [])])
       = Inr (Some (InvalidMeasurementInterval 1801), scripted [(None, [])])
   \<and> (2 :: uint16) \<le> 2 \<and> (2 :: uint16) \<le> 1800
   \<and> (\<exists>err s'. SetMeasurementInterval (New scripted_bus) 2 (scripted [(None, [])]) = Inr (err, s')
         \<and> trace s' = [TxCall 0x61 [0x46, 0x00, 0x00, 0x02, 0xE3] 0])
   \<and> (2 :: uint16) \<le> 1800 \<and> (1800 :: uint16) \<le> 1800
   \<and> (\<exists>err s'. SetMeasurementInterval (New scripted_bus) 1800 (scripted [(None, [])]) = Inr (err, s')
         \<and> trace s' = [TxCall 0x61 [0x46, 0x00, 0x07, 0x08, 0x96] 0])"
proof -
  have c2: "crc8_reference [0x00, 0x02] 2 = 0xE3" by code_simp
  have c1800: "crc8_reference [0x07, 0x08] 2 = 0x96" by code_simp
  have b: "hi_byte 2 = 0" "lo_byte 2 = 2" "hi_byte 1800 = 7" "lo_byte 1800 = 8"
    by (simp_all add: hi_byte_def lo_byte_def)
  show ?thesis
    using SetMeasurementInterval_range [of 1 "New scripted_bus" "scripted [(None, [])]"]
      SetMeasurementInterval_range [of 1801 "New scripted_bus" "scripted [(None, [])]"]
      SetMeasurementInterval_range [of 2 "New scripted_bus" "scripted [(None, [])]"]
      SetMeasurementInterval_range [of 1800 "New scripted_bus" "scripted [(None, [])]"]
    by (simp add: c2 c1800 b New_def I2C_ADDRESS_def scripted_def)
qed

text \<open>
  C6: the ambient pressure is accepted exactly when it is 0 or in \<open>[700, 1200]\<close>. An
  accepted value is sent as the payload of command 0x0010, in one transaction, and the
  call returns no error unless the bus does (then it returns the bus's error, wrapped);
  any other value is refused with the error that names the ambient pressure, and the
  world is left as it was: nothing is sent on the bus.
\<close>

theorem StartContinuousMeasurement_range:
  "((ambientPressure = 0 \<or> (700 \<le> ambientPressure \<and> ambientPressure \<le> 1200))
     \<and> bus d (transport s) (ucast (Address d))
           [0x00, 0x10, hi_byte ambientPressure, lo_byte ambientPressure,
            crc8_reference [hi_byte ambientPressure, lo_byte ambientPressure] 2] []
         = (err, stored, b) \<longrightarrow>
      StartContinuousMeasurement d ambientPressure s
        = Inr (map_option FailedToSendData err,
               \<lparr>transport = b,
                trace = trace s @
                  [TxCall (ucast (Address d))
                     [0x00, 0x10, hi_byte ambientPressure, lo_byte ambientPressure,
                      crc8_reference [hi_byte ambientPressure, lo_byte ambientPressure] 2]
                     0]\<rparr>))
   \<and> (ambientPressure \<noteq> 0 \<and> (ambientPressure < 700 \<or> 1200 < ambientPressure) \<longrightarrow>
        StartContinuousMeasurement d ambientPressure s
          = Inr (Some (InvalidAmbientPressure ambientPressure), s)
        \<and> Error (InvalidAmbientPressure ambientPressure) =
            ''invalid ambient pressure value: '' @ decimal (unat ambientPressure)
              @ '', expected 0 or [700-1200]'')"
proof -
  have f: "write_frame CMD_START_CONTINUOUS_MEASUREMENT ambientPressure =
             [0x00, 0x10, hi_byte ambientPressure, lo_byte ambientPressure,
              crc8_reference [hi_byte ambientPressure, lo_byte ambientPressure] 2]"
    by (simp add: write_frame_def CMD_START_CONTINUOUS_MEASUREMENT_def hi_byte_def lo_byte_def)
  have "StartContinuousMeasurement d ambientPressure s
        = Inr (map_option FailedToSendData err,
               \<lparr>transport = b,
                trace = trace s @
                  [TxCall (ucast (Address d))
                     [0x00, 0x10, hi_byte ambientPressure, lo_byte ambientPressure,
                      crc8_reference [hi_byte ambientPressure, lo_byte ambientPressure] 2]
                     0]\<rparr>)"
    if "ambientPressure = 0 \<or> (700 \<le> ambientPressure \<and> ambientPressure \<le> 1200)"
      and "bus d (transport s) (ucast (Address d))
             [0x00, 0x10, hi_byte ambientPressure, lo_byte ambientPressure,
              crc8_reference [hi_byte ambientPressure, lo_byte ambientPressure] 2] []
           = (err, stored, b)"
  proof -
    from that(1) have "StartContinuousMeasurement d ambientPressure s
                      = writeValue d CMD_START_CONTINUOUS_MEASUREMENT ambientPressure s"
      by (auto simp add: StartContinuousMeasurement_def)
    then show ?thesis
      using that(2) by (simp add: writeValue_eq f)
  qed
  moreover have "StartContinuousMeasurement d ambientPressure s
                   = Inr (Some (InvalidAmbientPressure ambientPressure), s)"
    if "ambientPressure \<noteq> 0 \<and> (ambientPressure < 700 \<or> 1200 < ambientPressure)"
    using that by (simp add: StartContinuousMeasurement_def)
  ultimately show ?thesis
    by simp
qed

theorem StartContinuousMeasurement_range_witness:
  "StartContinuousMeasurement (New scripted_bus) 0 (scripted [(None, [])])
     = Inr (None, \<lparr>transport = [], trace = [TxCall 0x61 [0x00, 0x10, 0x00, 0x00, 0x81] 0]\<rparr>)
   \<and> (700 :: uint16) \<le> 700 \<and> (700 :: uint16) \<le> 1200
   \<and> StartContinuousMeasurement (New scripted_bus) 700 (scripted [(None, [])])
       = Inr (None, \<lparr>transport = [], trace = [TxCall 0x61 [0x00, 0x10, 0x02, 0xBC, 0x9A] 0]\<rparr>)
   \<and> (700 :: uint16) \<le> 1200 \<and> (1200 :: uint16) \<le> 1200
   \<and> StartContinuousMeasurement (New scripted_bus) 1200 (scripted [(None, [])])
       = Inr (None, \<lparr>transport = [], trace = [TxCall 0x61 [0x00, 0x10, 0x04, 0xB0, 0xBD] 0]\<rparr>)
   \<and> StartContinuousMeasurement (New scripted_bus) 700
         (scripted [(Some (TransportError ''nack''), [])])
       = Inr (Some (FailedToSendData (TransportError ''nack'')),
              \<lparr>transport = [], trace = [TxCall 0x61 [0x00, 0x10, 0x02, 0xBC, 0x9A] 0]\<rparr>)
   \<and> (699 :: uint16) \<noteq> 0 \<and> (699 :: uint16) < 700
   \<and> StartContinuousMeasurement (New scripted_bus) 699 (scripted [(None, [])])
       = Inr (Some (InvalidAmbientPressure 699), scripted [(None, [])])
   \<and> (1201 :: uint16) \<noteq> 0 \<and> (1200 :: uint16) < 1201
   \<and> StartContinuousMeasurement (New scripted_bus) 1201 (scripted [(None, [])])
       = Inr (Some (InvalidAmbientPressure 1201), scripted [(None, [])])
   \<and> (50 :: uint16) \<noteq> 0 \<and> (50 :: uint16) < 700
   \<and> StartContinuousMeasurement (New scripted_bus) 50 (scripted [(None, [])])
       = Inr (Some (InvalidAmbientPressure 50), scripted [(None, [])])"
proof -
  have c: "crc8_reference [0x00, 0x00] 2 = 0x81" "crc8_reference [0x02, 0xBC] 2 = 0x9A"
    "crc8_reference [0x04, 0xB0] 2 = 0xBD"
    by code_simp+
  have h: "hi_byte 0 = 0" "lo_byte 0 = 0" "hi_byte 700 = 2" "lo_byte 700 = 0xBC"
    "hi_byte 1200 = 4" "lo_byte 1200 = 0xB0"
    by (simp_all add: hi_byte_def lo_byte_def)
  show ?thesis
    using StartContinuousMeasurement_range [where ambientPressure = 0
        and d = "New scripted_bus" and s = "scripted [(None, [])]"
        and err = None and stored = "[]" and b = "[]"]
      StartContinuousMeasurement_range [where ambientPressure = 700
        and d = "New scripted_bus" and s = "scripted [(None, [])]"
        and err = None and stored = "[]" and b = "[]"]
      StartContinuousMeasurement_range [where ambientPressure = 1200
        and d = "New scripted_bus" and s = "scripted [(None, [])]"
        and err = None and stored = "[]" and b = "[]"]
      StartContinuousMeasurement_range [where ambientPressure = 700
        and d = "New scripted_bus" and s = "scripted [(Some (TransportError ''nack''), [])]"
        and err = "Some (TransportError ''nack'')" and stored = "[]" and b = "[]"]
      StartContinuousMeasurement_range [where ambientPressure = 699
        and d = "New scripted_bus" and s = "scripted [(None, [])]"]
      StartContinuousMeasurement_range [where ambientPressure = 1201
        and d = "New scripted_bus" and s = "scripted [(None, [])]"]
      StartContinuousMeasurement_range [where ambientPressure = 50
        and d = "New scripted_bus" and s = "scripted [(None, [])]"]
    by (simp add: c h New_def I2C_ADDRESS_def scripted_def)
qed

section \<open>Reading\<close>

lemma readResponse_ok:
  assumes "bus d (transport s) (ucast (Address d)) [hi_byte command, lo_byte command] []
             = (None, stored, b1)"
    and "bus d b1 (ucast (Address d)) [] buffer = (None, frame, b2)"
    and "length frame = length buffer"
  shows "readResponse d command buffer s =
           ((None, frame),
            \<lparr>transport = b2,
             trace = trace s @
               [TxCall (ucast (Address d)) [hi_byte command, lo_byte command] 0,
                Sleep (ClockStretching d),
                TxCall (ucast (Address d)) [] (length buffer)]\<rparr>)"
  using assms by (simp add: readResponse_def Tx_def sleep_def)

lemma readResponse_length:
  "readResponse d command buffer s = ((err, buffer'), s') \<Longrightarrow> length buffer' = length buffer"
  by (auto simp add: readResponse_def Tx_def split: prod.splits option.splits)

lemma checkCRC8_chunk:
  "checkCRC8 [a, b, c] =
     Inr (if crc8_reference [a, b] 2 \<noteq> c
          then Some (CRCChecksumFailed c (crc8_reference [a, b] 2)) else None)"
proof -
  have "length [a, b] = 2" by simp
  with checkCRC8_append [of "[a, b]" c] show ?thesis
    by (simp only: append_Cons append_Nil)
qed

lemma chunk_ok_iff:
  "chunk_ok frame k =
     (crc8_reference [frame ! (3 * k), frame ! (3 * k + 1)] 2 = frame ! (3 * k + 2))"
  using computeCRC8_eq [of 2 "[frame ! (3 * k), frame ! (3 * k + 1)]"]
  by (simp add: chunk_ok_def chunk_crc_def)

lemma ucast_byte_id: "(ucast (ucast r :: uint16) :: byte) = r"
  by (rule ucast_up_ucast_id) (simp add: is_up)

lemma ucast_byte_eq_1: "(ucast r = (1 :: uint16)) = (r = 1)" for r :: byte
proof
  assume "ucast r = (1 :: uint16)"
  then have "(ucast (ucast r :: uint16) :: byte) = ucast (1 :: uint16)"
    by simp
  then show "r = 1"
    by (simp add: ucast_byte_id)
next
  assume "r = 1"
  then show "ucast r = (1 :: uint16)"
    by simp
qed

text \<open>
  C8: when the exchange succeeds and the three bytes read carry a correct CRC8,
  \<^verbatim>\<open>GetSelfCalibration\<close> returns whether the byte at index 1 is 0x01 (so \<open>False\<close> for
  0x00), whatever the byte at index 0.
\<close>

theorem GetSelfCalibration_byte1:
  assumes "bus d (transport s) (ucast (Address d)) [0x53, 0x06] [] = (None, stored, b1)"
    and "bus d b1 (ucast (Address d)) [] [0, 0, 0] = (None, [r0, r1, crc], b2)"
    and "computeCRC8 [r0, r1] 2 = Inr crc"
  shows "\<exists>s'. GetSelfCalibration d s = Inr ((r1 = 0x01, None), s')"
proof -
  have c: "crc8_reference [r0, r1] 2 = crc"
    using assms(3) computeCRC8_eq [of 2 "[r0, r1]"] by simp
  have h: "hi_byte CMD_SELF_CALIBRATION = 0x53" "lo_byte CMD_SELF_CALIBRATION = 0x06"
    by (simp_all add: CMD_SELF_CALIBRATION_def hi_byte_def lo_byte_def)
  have "readResponse d CMD_SELF_CALIBRATION (replicate 3 0) s =
          ((None, [r0, r1, crc]),
           \<lparr>transport = b2,
            trace = trace s @
              [TxCall (ucast (Address d)) [0x53, 0x06] 0,
               Sleep (ClockStretching d),
               TxCall (ucast (Address d)) [] 3]\<rparr>)"
    using readResponse_ok [of d s CMD_SELF_CALIBRATION stored b1 "replicate 3 0" "[r0, r1, crc]" b2]
      assms(1,2)
    by (simp add: h numeral_3_eq_3)
  then show ?thesis
    by (simp add: GetSelfCalibration_def readAndCheckResponse_def checkCRC8_chunk c index_def
        SELF_CALIBRATION_ENABLED_def ucast_byte_eq_1)
qed

theorem GetSelfCalibration_byte1_witness:
  "computeCRC8 [0x00, 0x01] 2 = Inr 0xB0
   \<and> (\<exists>s'. GetSelfCalibration (New scripted_bus)
               (scripted [(None, []), (None, [0x00, 0x01, 0xB0])]) = Inr ((True, None), s'))
   \<and> computeCRC8 [0x00, 0x00] 2 = Inr 0x81
   \<and> (\<exists>s'. GetSelfCalibration (New scripted_bus)
               (scripted [(None, []), (None, [0x00, 0x00, 0x81])]) = Inr ((False, None), s'))
   \<and> computeCRC8 [0xAB, 0x01] 2 = Inr 0x55
   \<and> (\<exists>s'. GetSelfCalibration (New scripted_bus)
               (scripted [(None, []), (None, [0xAB, 0x01, 0x55])]) = Inr ((True, None), s'))
   \<and> computeCRC8 [0xAB, 0x00] 2 = Inr 0x64
   \<and> (\<exists>s'. GetSelfCalibration (New scripted_bus)
               (scripted [(None, []), (None, [0xAB, 0x00, 0x64])]) = Inr ((False, None), s'))"
proof -
  have c: "computeCRC8 [0x00, 0x01] 2 = Inr 0xB0" "computeCRC8 [0x00, 0x00] 2 = Inr 0x81"
    "computeCRC8 [0xAB, 0x01] 2 = Inr 0x55" "computeCRC8 [0xAB, 0x00] 2 = Inr 0x64"
    by (simp_all add: computeCRC8_def crc8_bytes.simps crc8_bits.simps index_def)
  have "\<exists>s'. GetSelfCalibration (New scripted_bus)
               (scripted [(None, []), (None, [0x00, 0x01, 0xB0])]) = Inr ((True, None), s')"
    using GetSelfCalibration_byte1 [of "New scripted_bus"
        "scripted [(None, []), (None, [0x00, 0x01, 0xB0])]" "[]" "[(None, [0x00, 0x01, 0xB0])]"
        "0x00" "0x01" "0xB0" "[]"]
    by (simp add: New_def scripted_def c I2C_ADDRESS_def)
  moreover have "\<exists>s'. GetSelfCalibration (New scripted_bus)
               (scripted [(None, []), (None, [0x00, 0x00, 0x81])]) = Inr ((False, None), s')"
    using GetSelfCalibration_byte1 [of "New scripted_bus"
        "scripted [(None, []), (None, [0x00, 0x00, 0x81])]" "[]" "[(None, [0x00, 0x00, 0x81])]"
        "0x00" "0x00" "0x81" "[]"]
    by (simp add: New_def scripted_def c I2C_ADDRESS_def)
  moreover have "\<exists>s'. GetSelfCalibration (New scripted_bus)
               (scripted [(None, []), (None, [0xAB, 0x01, 0x55])]) = Inr ((True, None), s')"
    using GetSelfCalibration_byte1 [of "New scripted_bus"
        "scripted [(None, []), (None, [0xAB, 0x01, 0x55])]" "[]" "[(None, [0xAB, 0x01, 0x55])]"
        "0xAB" "0x01" "0x55" "[]"]
    by (simp add: New_def scripted_def c I2C_ADDRESS_def)
  moreover have "\<exists>s'. GetSelfCalibration (New scripted_bus)
               (scripted [(None, []), (None, [0xAB, 0x00, 0x64])]) = Inr ((False, None), s')"
    using GetSelfCalibration_byte1 [of "New scripted_bus"
        "scripted [(None, []), (None, [0xAB, 0x00, 0x64])]" "[]" "[(None, [0xAB, 0x00, 0x64])]"
        "0xAB" "0x00" "0x64" "[]"]
    by (simp add: New_def scripted_def c I2C_ADDRESS_def)
  ultimately show ?thesis
    using c by (intro conjI)
qed

lemma big_endian_fold:
  "push_bit 8 (push_bit 8 (push_bit 8 (push_bit 8 (0 :: uint32) OR ucast a) OR ucast b) OR ucast c)
     OR ucast d = big_endian_uint32 a b c d" for a b c d :: byte
  by (simp add: big_endian_uint32_def or.assoc)

lemma checkCRC8_chunk_if:
  "checkCRC8 [a, b, c] =
     (if crc8_reference [a, b] 2 = c then Inr None
      else Inr (Some (CRCChecksumFailed c (crc8_reference [a, b] 2))))"
  by (simp add: checkCRC8_chunk)

lemma frame18:
  assumes "length frame = 18"
  obtains b0 b1 b2 b3 b4 b5 b6 b7 b8 b9 b10 b11 b12 b13 b14 b15 b16 b17
  where "frame = [b0, b1, b2, b3, b4, b5, b6, b7, b8, b9, b10, b11, b12, b13, b14, b15, b16, b17]"
  using assms by (auto simp add: eval_nat_numeral length_Suc_conv)

lemma read_chunks_0:
  "read_chunks (a0 # a1 # a2 # a3 # a4 # a5 # rest) 0 0 [x, y, z] 0 =
     (if crc8_reference [a0, a1] 2 \<noteq> a2
      then Inr (Inl (CRCChecksumFailed a2 (crc8_reference [a0, a1] 2)))
      else if crc8_reference [a3, a4] 2 \<noteq> a5
      then Inr (Inl (CRCChecksumFailed a5 (crc8_reference [a3, a4] 2)))
      else Inr (Inr (6, [a3, a4, a5], big_endian_uint32 a0 a1 a3 a4)))"
  by (simp add: read_chunks.simps index_def store_def checkCRC8_chunk_if
      big_endian_fold [symmetric])

lemma read_chunks_6:
  "read_chunks (p0 # p1 # p2 # p3 # p4 # p5 # a0 # a1 # a2 # a3 # a4 # a5 # rest)
       0 6 [x, y, z] 0 =
     (if crc8_reference [a0, a1] 2 \<noteq> a2
      then Inr (Inl (CRCChecksumFailed a2 (crc8_reference [a0, a1] 2)))
      else if crc8_reference [a3, a4] 2 \<noteq> a5
      then Inr (Inl (CRCChecksumFailed a5 (crc8_reference [a3, a4] 2)))
      else Inr (Inr (12, [a3, a4, a5], big_endian_uint32 a0 a1 a3 a4)))"
  by (simp add: read_chunks.simps index_def store_def checkCRC8_chunk_if
      big_endian_fold [symmetric])

lemma read_chunks_12:
  "read_chunks (p0 # p1 # p2 # p3 # p4 # p5 # q0 # q1 # q2 # q3 # q4 # q5
                  # a0 # a1 # a2 # a3 # a4 # a5 # rest) 0 12 [x, y, z] 0 =
     (if crc8_reference [a0, a1] 2 \<noteq> a2
      then Inr (Inl (CRCChecksumFailed a2 (crc8_reference [a0, a1] 2)))
      else if crc8_reference [a3, a4] 2 \<noteq> a5
      then Inr (Inl (CRCChecksumFailed a5 (crc8_reference [a3, a4] 2)))
      else Inr (Inr (18, [a3, a4, a5], big_endian_uint32 a0 a1 a3 a4)))"
  by (simp add: read_chunks.simps index_def store_def checkCRC8_chunk_if
      big_endian_fold [symmetric])

lemma read_values_frame:
  "read_values [b0, b1, b2, b3, b4, b5, b6, b7, b8, b9, b10, b11, b12, b13, b14, b15, b16, b17]
       0 0 [0, 0, 0] [z0, z1, z2] =
     (if crc8_reference [b0, b1] 2 \<noteq> b2
      then Inr (Inl (CRCChecksumFailed b2 (crc8_reference [b0, b1] 2)))
      else if crc8_reference [b3, b4] 2 \<noteq> b5
      then Inr (Inl (CRCChecksumFailed b5 (crc8_reference [b3, b4] 2)))
      else if crc8_reference [b6, b7] 2 \<noteq> b8
      then Inr (Inl (CRCChecksumFailed b8 (crc8_reference [b6, b7] 2)))
      else if crc8_reference [b9, b10] 2 \<noteq> b11
      then Inr (Inl (CRCChecksumFailed b11 (crc8_reference [b9, b10] 2)))
      else if crc8_reference [b12, b13] 2 \<noteq> b14
      then Inr (Inl (CRCChecksumFailed b14 (crc8_reference [b12, b13] 2)))
      else if crc8_reference [b15, b16] 2 \<noteq> b17
      then Inr (Inl (CRCChecksumFailed b17 (crc8_reference [b15, b16] 2)))
      else Inr (Inr [Float32frombits (big_endian_uint32 b0 b1 b3 b4),
                     Float32frombits (big_endian_uint32 b6 b7 b9 b10),
                     Float32frombits (big_endian_uint32 b12 b13 b15 b16)]))"
  by (simp add: read_values.simps read_chunks_0 read_chunks_6 read_chunks_12 store_def)

lemma fixture_bits:
  "big_endian_uint32 0x43 0xC8 0x00 0x00 = 0x43C80000"
  "big_endian_uint32 0x41 0xC8 0x00 0x00 = 0x41C80000"
  "big_endian_uint32 0x42 0x48 0x00 0x00 = 0x42480000"
  by (simp_all add: big_endian_uint32_def)

lemma fixture_values:
  "float32_value (Float32frombits 0x43C80000) = Some 400"
  "float32_value (Float32frombits 0x41C80000) = Some 25"
  "float32_value (Float32frombits 0x42480000) = Some 50"
  by (simp_all add: float32_value_def Let_def)

lemma chunk_ok_all:
  assumes "\<forall>k<6. chunk_ok [b0, b1, b2, b3, b4, b5, b6, b7, b8, b9, b10, b11, b12, b13, b14, b15, b16, b17] k"
  shows "crc8_reference [b0, b1] 2 = b2" "crc8_reference [b3, b4] 2 = b5"
    "crc8_reference [b6, b7] 2 = b8" "crc8_reference [b9, b10] 2 = b11"
    "crc8_reference [b12, b13] 2 = b14" "crc8_reference [b15, b16] 2 = b17"
  using assms [rule_format, of 0] assms [rule_format, of 1] assms [rule_format, of 2]
    assms [rule_format, of 3] assms [rule_format, of 4] assms [rule_format, of 5]
  by (simp_all add: chunk_ok_iff)

lemma readResponse_measurement:
  assumes "bus d (transport s) (ucast (Address d)) [0x03, 0x00] [] = (None, stored, b1)"
    and "bus d b1 (ucast (Address d)) [] (replicate 18 0) = (None, frame, b2)"
    and "length frame = 18"
  shows "readResponse d CMD_READ_MEASUREMENT (replicate 18 0) s =
           ((None, frame),
            \<lparr>transport = b2,
             trace = trace s @
               [TxCall (ucast (Address d)) [0x03, 0x00] 0,
                Sleep (ClockStretching d),
                TxCall (ucast (Address d)) [] 18]\<rparr>)"
proof -
  have h: "hi_byte CMD_READ_MEASUREMENT = 0x03" "lo_byte CMD_READ_MEASUREMENT = 0x00"
    by (simp_all add: CMD_READ_MEASUREMENT_def hi_byte_def lo_byte_def)
  show ?thesis
    using readResponse_ok [of d s CMD_READ_MEASUREMENT stored b1 "replicate 18 0" frame b2] assms
    by (simp add: h)
qed

text \<open>
  C1: when the exchange succeeds and each of the six chunks of the 18 bytes read carries
  a correct CRC8, \<^verbatim>\<open>ReadMeasurement\<close> returns no error and the measurement whose
  CO2, temperature and humidity are the floats with the bits of the big-endian numbers
  made of the data bytes 0, 1, 3, 4, of 6, 7, 9, 10 and of 12, 13, 15, 16. On the frame of
  400.0, 25.0 and 50.0 these are the three values.
\<close>

theorem ReadMeasurement_decodes:
  assumes "bus d (transport s) (ucast (Address d)) [0x03, 0x00] [] = (None, stored, b1)"
    and "bus d b1 (ucast (Address d)) [] (replicate 18 0) = (None, frame, b2)"
    and "length frame = 18"
    and "\<forall>k<6. chunk_ok frame k"
  shows "\<exists>m s'. ReadMeasurement d s = Inr ((m, None), s')
           \<and> CO2 m = Float32frombits
                (big_endian_uint32 (frame ! 0) (frame ! 1) (frame ! 3) (frame ! 4))
           \<and> Temperature m = Float32frombits
                (big_endian_uint32 (frame ! 6) (frame ! 7) (frame ! 9) (frame ! 10))
           \<and> Humidity m = Float32frombits
                (big_endian_uint32 (frame ! 12) (frame ! 13) (frame ! 15) (frame ! 16))
           \<and> (frame = fixture_frame \<longrightarrow>
                float32_value (CO2 m) = Some 400
                \<and> float32_value (Temperature m) = Some 25
                \<and> float32_value (Humidity m) = Some 50)"
proof -
  from assms(3) obtain b0 b1 b2 b3 b4 b5 b6 b7 b8 b9 b10 b11 b12 b13 b14 b15 b16 b17
    where f: "frame = [b0, b1, b2, b3, b4, b5, b6, b7, b8, b9, b10, b11, b12, b13, b14, b15, b16, b17]"
    by (rule frame18)
  note ok = chunk_ok_all [OF assms(4) [unfolded f]]
  have v: "read_values frame 0 0 (replicate 3 0) (replicate 3 (Float32frombits 0)) =
             Inr (Inr [Float32frombits (big_endian_uint32 b0 b1 b3 b4),
                       Float32frombits (big_endian_uint32 b6 b7 b9 b10),
                       Float32frombits (big_endian_uint32 b12 b13 b15 b16)])"
    unfolding f by (simp add: numeral_3_eq_3 read_values_frame ok)
  show ?thesis
    unfolding ReadMeasurement_def readResponse_measurement [OF assms(1-3)]
    by (simp add: v index_def) (simp add: f fixture_frame_def fixture_bits fixture_values)
qed

theorem ReadMeasurement_decodes_witness:
  "length fixture_frame = 18
   \<and> chunk_ok fixture_frame 0 \<and> chunk_ok fixture_frame 1 \<and> chunk_ok fixture_frame 2
   \<and> chunk_ok fixture_frame 3 \<and> chunk_ok fixture_frame 4 \<and> chunk_ok fixture_frame 5
   \<and> (\<exists>m s'. ReadMeasurement (New scripted_bus) (scripted [(None, []), (None, fixture_frame)])
                = Inr ((m, None), s')
         \<and> CO2 m = Float32frombits 0x43C80000
         \<and> Temperature m = Float32frombits 0x41C80000
         \<and> Humidity m = Float32frombits 0x42480000
         \<and> float32_value (CO2 m) = Some 400
         \<and> float32_value (Temperature m) = Some 25
         \<and> float32_value (Humidity m) = Some 50)"
proof -
  have c: "computeCRC8 [0x43, 0xC8] 2 = Inr 0xDB" "computeCRC8 [0x00, 0x00] 2 = Inr 0x81"
    "computeCRC8 [0x41, 0xC8] 2 = Inr 0x02" "computeCRC8 [0x42, 0x48] 2 = Inr 0x55"
    by (simp_all add: computeCRC8_def crc8_bytes.simps crc8_bits.simps index_def)
  have ok: "chunk_ok fixture_frame 0" "chunk_ok fixture_frame 1" "chunk_ok fixture_frame 2"
    "chunk_ok fixture_frame 3" "chunk_ok fixture_frame 4" "chunk_ok fixture_frame 5"
    by (simp_all add: chunk_ok_def chunk_crc_def fixture_frame_def c)
  then have all: "\<forall>k<6. chunk_ok fixture_frame k"
    by (auto simp add: less_Suc_eq eval_nat_numeral)
  have len: "length fixture_frame = 18"
    by (simp add: fixture_frame_def)
  have t1: "bus (New scripted_bus) (transport (scripted [(None, []), (None, fixture_frame)]))
              (ucast (Address (New scripted_bus))) [0x03, 0x00] []
            = (None, [], [(None, fixture_frame)])"
    by (simp add: New_def scripted_def)
  have t2: "bus (New scripted_bus) [(None, fixture_frame)]
              (ucast (Address (New scripted_bus))) [] (replicate 18 0)
            = (None, fixture_frame, [])"
    by (simp add: New_def)
  from ReadMeasurement_decodes [OF t1 t2 len all] len ok show ?thesis
    by (simp add: fixture_frame_def fixture_bits)
qed

lemma first_bad_chunk:
  assumes "k < 6" and "\<forall>j<k. chunk_ok frame j" and "\<not> chunk_ok frame k"
    and "frame = [b0, b1, b2, b3, b4, b5, b6, b7, b8, b9, b10, b11, b12, b13, b14, b15, b16, b17]"
  shows "read_values frame 0 0 [0, 0, 0] [z0, z1, z2] =
           Inr (Inl (CRCChecksumFailed (frame ! (3 * k + 2))
                       (crc8_reference [frame ! (3 * k), frame ! (3 * k + 1)] 2)))"
proof -
  from assms(1) consider "k = 0" | "k = 1" | "k = 2" | "k = 3" | "k = 4" | "k = 5"
    by linarith
  then show ?thesis
  proof cases
    case 1
    with assms(3,4) show ?thesis
      by (simp add: read_values_frame chunk_ok_iff)
  next
    case 2
    with assms(3,4) assms(2) [rule_format, of 0] show ?thesis
      by (simp add: read_values_frame chunk_ok_iff)
  next
    case 3
    with assms(3,4) assms(2) [rule_format, of 0] assms(2) [rule_format, of 1] show ?thesis
      by (simp add: read_values_frame chunk_ok_iff)
  next
    case 4
    with assms(3,4) assms(2) [rule_format, of 0] assms(2) [rule_format, of 1]
      assms(2) [rule_format, of 2] show ?thesis
      by (simp add: read_values_frame chunk_ok_iff)
  next
    case 5
    with assms(3,4) assms(2) [rule_format, of 0] assms(2) [rule_format, of 1]
      assms(2) [rule_format, of 2] assms(2) [rule_format, of 3] show ?thesis
      by (simp add: read_values_frame chunk_ok_iff)
  next
    case 6
    with assms(3,4) assms(2) [rule_format, of 0] assms(2) [rule_format, of 1]
      assms(2) [rule_format, of 2] assms(2) [rule_format, of 3] assms(2) [rule_format, of 4]
    show ?thesis
      by (simp add: read_values_frame chunk_ok_iff)
  qed
qed

text \<open>
  C4, as the code has it: every chunk is checked on its own, in frame order. When chunk
  \<open>k\<close> is the first whose CRC8 is wrong, the read returns the checksum error of that
  chunk, which carries the CRC byte found and the CRC8 computed (and not the chunk's
  position), next to the zero measurement: no field decoded from an earlier chunk is
  returned.
\<close>

theorem ReadMeasurement_all_or_nothing:
  assumes "bus d (transport s) (ucast (Address d)) [0x03, 0x00] [] = (None, stored, b1)"
    and "bus d b1 (ucast (Address d)) [] (replicate 18 0) = (None, frame, b2)"
    and "length frame = 18"
    and "k < 6" and "\<forall>j<k. chunk_ok frame j" and "\<not> chunk_ok frame k"
  shows "\<exists>s'. ReadMeasurement d s =
           Inr ((zero_Measurement,
                 Some (CRCChecksumFailed (frame ! (3 * k + 2))
                         (crc8_reference [frame ! (3 * k), frame ! (3 * k + 1)] 2))), s')"
proof -
  from assms(3) obtain b0 b1 b2 b3 b4 b5 b6 b7 b8 b9 b10 b11 b12 b13 b14 b15 b16 b17
    where f: "frame = [b0, b1, b2, b3, b4, b5, b6, b7, b8, b9, b10, b11, b12, b13, b14, b15, b16, b17]"
    by (rule frame18)
  have v: "read_values frame 0 0 (replicate 3 0) (replicate 3 (Float32frombits 0)) =
             Inr (Inl (CRCChecksumFailed (frame ! (3 * k + 2))
                         (crc8_reference [frame ! (3 * k), frame ! (3 * k + 1)] 2)))"
    using first_bad_chunk [OF assms(4-6) f] by (simp add: numeral_3_eq_3)
  show ?thesis
    unfolding ReadMeasurement_def readResponse_measurement [OF assms(1-3)]
    by (simp add: v)
qed

theorem ReadMeasurement_all_or_nothing_witness:
  "length corrupt_chunk3 = 18 \<and> (3 :: nat) < 6
   \<and> chunk_ok corrupt_chunk3 0 \<and> chunk_ok corrupt_chunk3 1 \<and> chunk_ok corrupt_chunk3 2
   \<and> \<not> chunk_ok corrupt_chunk3 3
   \<and> (\<exists>s'. ReadMeasurement (New scripted_bus) (scripted [(None, []), (None, corrupt_chunk3)])
              = Inr ((zero_Measurement, Some (CRCChecksumFailed 0x00 0x81)), s'))"
proof -
  have c: "computeCRC8 [0x43, 0xC8] 2 = Inr 0xDB" "computeCRC8 [0x00, 0x00] 2 = Inr 0x81"
    "computeCRC8 [0x41, 0xC8] 2 = Inr 0x02"
    by (simp_all add: computeCRC8_def crc8_bytes.simps crc8_bits.simps index_def)
  have r: "crc8_reference [0x00, 0x00] 2 = 0x81"
    using computeCRC8_eq [of 2 "[0x00, 0x00]"] by (simp add: c)
  have ok: "chunk_ok corrupt_chunk3 0" "chunk_ok corrupt_chunk3 1" "chunk_ok corrupt_chunk3 2"
    and bad: "\<not> chunk_ok corrupt_chunk3 3"
    by (simp_all add: chunk_ok_def chunk_crc_def corrupt_chunk3_def fixture_frame_def c)
  from ok have before: "\<forall>j<3. chunk_ok corrupt_chunk3 j"
    by (auto simp add: less_Suc_eq eval_nat_numeral)
  have len: "length corrupt_chunk3 = 18"
    by (simp add: corrupt_chunk3_def fixture_frame_def)
  have k: "(3 :: nat) < 6" by simp
  have t1: "bus (New scripted_bus) (transport (scripted [(None, []), (None, corrupt_chunk3)]))
              (ucast (Address (New scripted_bus))) [0x03, 0x00] []
            = (None, [], [(None, corrupt_chunk3)])"
    by (simp add: New_def scripted_def)
  have t2: "bus (New scripted_bus) [(None, corrupt_chunk3)]
              (ucast (Address (New scripted_bus))) [] (replicate 18 0)
            = (None, corrupt_chunk3, [])"
    by (simp add: New_def)
  from ReadMeasurement_all_or_nothing [OF t1 t2 len k before bad] len k ok bad show ?thesis
    by (simp add: corrupt_chunk3_def fixture_frame_def r)
qed

text \<open>
  C4 as stated fails where it says the error names the chunk: a frame whose chunk 1 is
  wrong and a frame whose chunk 3 is wrong give the same error, with the same text.
\<close>

theorem ReadMeasurement_names_chunk_counterexample:
  "chunk_ok corrupt_chunk1 0 \<and> \<not> chunk_ok corrupt_chunk1 1
   \<and> chunk_ok corrupt_chunk3 0 \<and> chunk_ok corrupt_chunk3 1 \<and> chunk_ok corrupt_chunk3 2
   \<and> \<not> chunk_ok corrupt_chunk3 3
   \<and> ReadMeasurement (New scripted_bus) (scripted [(None, []), (None, corrupt_chunk1)])
       = Inr ((zero_Measurement, Some (CRCChecksumFailed 0x00 0x81)),
              \<lparr>transport = [],
               trace = [TxCall 0x61 [0x03, 0x00] 0, Sleep 150000000, TxCall 0x61 [] 18]\<rparr>)
   \<and> ReadMeasurement (New scripted_bus) (scripted [(None, []), (None, corrupt_chunk3)])
       = Inr ((zero_Measurement, Some (CRCChecksumFailed 0x00 0x81)),
              \<lparr>transport = [],
               trace = [TxCall 0x61 [0x03, 0x00] 0, Sleep 150000000, TxCall 0x61 [] 18]\<rparr>)
   \<and> Error (CRCChecksumFailed 0x00 0x81)
       = ''CRC checksum failed, expected: '' @ [CHR 0x27] @ ''0'' @ [CHR 0x27]
           @ '', got: '' @ [CHR 0x27] @ ''81'' @ [CHR 0x27]"
proof -
  have c: "computeCRC8 [0x43, 0xC8] 2 = Inr 0xDB" "computeCRC8 [0x00, 0x00] 2 = Inr 0x81"
    "computeCRC8 [0x41, 0xC8] 2 = Inr 0x02"
    by (simp_all add: computeCRC8_def crc8_bytes.simps crc8_bits.simps index_def)
  have r: "crc8_reference [0x43, 0xC8] 2 = 0xDB" "crc8_reference [0x00, 0x00] 2 = 0x81"
    "crc8_reference [0x41, 0xC8] 2 = 0x02"
    using computeCRC8_eq [of 2 "[0x43, 0xC8]"] computeCRC8_eq [of 2 "[0x00, 0x00]"]
      computeCRC8_eq [of 2 "[0x41, 0xC8]"]
    by (simp_all add: c)
  have ok: "chunk_ok corrupt_chunk1 0" "\<not> chunk_ok corrupt_chunk1 1"
    "chunk_ok corrupt_chunk3 0" "chunk_ok corrupt_chunk3 1" "chunk_ok corrupt_chunk3 2"
    "\<not> chunk_ok corrupt_chunk3 3"
    by (simp_all add: chunk_ok_def chunk_crc_def corrupt_chunk1_def corrupt_chunk3_def
        fixture_frame_def c)
  have h: "hi_byte CMD_READ_MEASUREMENT = 0x03" "lo_byte CMD_READ_MEASUREMENT = 0x00"
    by (simp_all add: CMD_READ_MEASUREMENT_def hi_byte_def lo_byte_def)
  have m1: "ReadMeasurement (New scripted_bus) (scripted [(None, []), (None, corrupt_chunk1)])
       = Inr ((zero_Measurement, Some (CRCChecksumFailed 0x00 0x81)),
              \<lparr>transport = [],
               trace = [TxCall 0x61 [0x03, 0x00] 0, Sleep 150000000, TxCall 0x61 [] 18]\<rparr>)"
    by (simp add: ReadMeasurement_def readResponse_def Tx_def sleep_def New_def scripted_def
        I2C_ADDRESS_def h corrupt_chunk1_def fixture_frame_def numeral_3_eq_3
        read_values_frame r)
  have m3: "ReadMeasurement (New scripted_bus) (scripted [(None, []), (None, corrupt_chunk3)])
       = Inr ((zero_Measurement, Some (CRCChecksumFailed 0x00 0x81)),
              \<lparr>transport = [],
               trace = [TxCall 0x61 [0x03, 0x00] 0, Sleep 150000000, TxCall 0x61 [] 18]\<rparr>)"
    by (simp add: ReadMeasurement_def readResponse_def Tx_def sleep_def New_def scripted_def
        I2C_ADDRESS_def h corrupt_chunk3_def fixture_frame_def numeral_3_eq_3
        read_values_frame r)
  have e: "Error (CRCChecksumFailed 0x00 0x81)
       = ''CRC checksum failed, expected: '' @ [CHR 0x27] @ ''0'' @ [CHR 0x27]
           @ '', got: '' @ [CHR 0x27] @ ''81'' @ [CHR 0x27]"
    by (simp add: hexadecimal.simps)
  from ok m1 m3 e show ?thesis
    by (intro conjI)
qed

text \<open>
  C10: whenever a getter returns an error, the value next to it is the zero value of
  its type: the empty string, 0, \<open>False\<close>, or the measurement with three zero fields.
\<close>

theorem getters_zero_on_error:
  "(GetSoftwareVersion d s = Inr ((version, Some err), s') \<longrightarrow> version = [])
   \<and> (GetMeasurementInterval d s = Inr ((interval, Some err), s') \<longrightarrow> interval = 0)
   \<and> (GetSelfCalibration d s = Inr ((enabled, Some err), s') \<longrightarrow> enabled = False)
   \<and> (GetForcedRecalibrationValue d s = Inr ((v, Some err), s') \<longrightarrow> v = 0)
   \<and> (GetTemperatureOffset d s = Inr ((offset, Some err), s') \<longrightarrow> offset = 0)
   \<and> (GetAltitudeCompensation d s = Inr ((altitude, Some err), s') \<longrightarrow> altitude = 0)
   \<and> (HasDataReady d s = Inr ((isReady, Some err), s') \<longrightarrow> isReady = False)
   \<and> (ReadMeasurement d s = Inr ((measurement, Some err), s') \<longrightarrow>
        measurement = zero_Measurement)"
proof (intro conjI impI)
  assume "GetSoftwareVersion d s = Inr ((version, Some err), s')"
  then show "version = []"
    by (auto simp add: GetSoftwareVersion_def split: sum.splits prod.splits option.splits)
next
  assume "GetMeasurementInterval d s = Inr ((interval, Some err), s')"
  then show "interval = 0"
    by (auto simp add: GetMeasurementInterval_def Let_def
        split: sum.splits prod.splits option.splits)
next
  assume "GetSelfCalibration d s = Inr ((enabled, Some err), s')"
  then show "enabled = False"
    by (auto simp add: GetSelfCalibration_def split: sum.splits prod.splits option.splits)
next
  assume "GetForcedRecalibrationValue d s = Inr ((v, Some err), s')"
  then show "v = 0"
    by (auto simp add: GetForcedRecalibrationValue_def Let_def
        split: sum.splits prod.splits option.splits)
next
  assume "GetTemperatureOffset d s = Inr ((offset, Some err), s')"
  then show "offset = 0"
    by (auto simp add: GetTemperatureOffset_def Let_def
        split: sum.splits prod.splits option.splits)
next
  assume "GetAltitudeCompensation d s = Inr ((altitude, Some err), s')"
  then show "altitude = 0"
    by (auto simp add: GetAltitudeCompensation_def Let_def
        split: sum.splits prod.splits option.splits)
next
  assume "HasDataReady d s = Inr ((isReady, Some err), s')"
  then show "isReady = False"
    by (auto simp add: HasDataReady_def split: sum.splits prod.splits option.splits)
next
  assume "ReadMeasurement d s = Inr ((measurement, Some err), s')"
  then show "measurement = zero_Measurement"
    by (auto simp add: ReadMeasurement_def split: sum.splits prod.splits option.splits)
qed

theorem getters_zero_on_error_witness:
  "GetSoftwareVersion (New scripted_bus)
       (scripted [])
     = Inr (([], Some (FailedToSendData (TransportError ''no answer''))),
            \<lparr>transport = [], trace = [TxCall 0x61 [0xD1, 0x00] 0]\<rparr>)
   \<and> GetMeasurementInterval (New scripted_bus)
       (scripted [(None, [])])
     = Inr ((0, Some (FailedToReadData (TransportError ''no answer''))),
            \<lparr>transport = [],
                trace = [TxCall 0x61 [0x46, 0x00] 0, Sleep 150000000, TxCall 0x61 [] 3]\<rparr>)
   \<and> GetSelfCalibration (New scripted_bus)
       (scripted [(None, []), (None, [0x00, 0x01, 0x00])])
     = Inr ((False, Some (CRCChecksumFailed 0x00 0xB0)),
            \<lparr>transport = [],
                trace = [TxCall 0x61 [0x53, 0x06] 0, Sleep 150000000, TxCall 0x61 [] 3]\<rparr>)
   \<and> GetForcedRecalibrationValue (New scripted_bus)
       (scripted [(None, []), (Some (TransportError ''nack''), [0x01, 0x90])])
     = Inr ((0, Some (FailedToReadData (TransportError ''nack''))),
            \<lparr>transport = [],
                trace = [TxCall 0x61 [0x52, 0x04] 0, Sleep 150000000, TxCall 0x61 [] 3]\<rparr>)
   \<and> GetTemperatureOffset (New scripted_bus)
       (scripted [])
     = Inr ((0, Some (FailedToSendData (TransportError ''no answer''))),
            \<lparr>transport = [], trace = [TxCall 0x61 [0x54, 0x03] 0]\<rparr>)
   \<and> GetAltitudeCompensation (New scripted_bus)
       (scripted [(None, []), (None, [0x01, 0x02, 0x03])])
     = Inr ((0, Some (CRCChecksumFailed 0x03 0x17)),
            \<lparr>transport = [],
                trace = [TxCall 0x61 [0x51, 0x02] 0, Sleep 150000000, TxCall 0x61 [] 3]\<rparr>)
   \<and> HasDataReady (New scripted_bus)
       (scripted [(None, []), (None, [0x00, 0x01, 0x00])])
     = Inr ((False, Some (CRCChecksumFailed 0x00 0xB0)),
            \<lparr>transport = [],
                trace = [TxCall 0x61 [0x02, 0x02] 0, Sleep 150000000, TxCall 0x61 [] 3]\<rparr>)
   \<and> ReadMeasurement (New scripted_bus)
       (scripted [(None, []), (None, corrupt_chunk3)])
     = Inr ((zero_Measurement, Some (CRCChecksumFailed 0x00 0x81)),
            \<lparr>transport = [],
                trace = [TxCall 0x61 [0x03, 0x00] 0, Sleep 150000000, TxCall 0x61 [] 18]\<rparr>)"
proof -
  have c: "crc8_reference [0x00, 0x01] 2 = 0xB0" "crc8_reference [0x01, 0x02] 2 = 0x17"
    "crc8_reference [0x43, 0xC8] 2 = 0xDB" "crc8_reference [0x00, 0x00] 2 = 0x81"
    "crc8_reference [0x41, 0xC8] 2 = 0x02"
    by code_simp+
  note run = readAndCheckResponse_def readResponse_def Tx_def sleep_def New_def scripted_def
    registers hi_byte_def lo_byte_def checkCRC8_chunk_if c
  obtain version where e0: "GetSoftwareVersion (New scripted_bus)
        (scripted [])
      = Inr ((version, Some (FailedToSendData (TransportError ''no answer''))),
             \<lparr>transport = [], trace = [TxCall 0x61 [0xD1, 0x00] 0]\<rparr>)"
    by (auto simp add: run GetSoftwareVersion_def)
  with getters_zero_on_error [where d = "New scripted_bus"
      and s = "scripted []"
      and err = "FailedToSendData (TransportError ''no answer'')"
      and s' = "\<lparr>transport = [], trace = [TxCall 0x61 [0xD1, 0x00] 0]\<rparr>"
      and version = version]
  have "version = []"
    by blast
  with e0 have f0: "GetSoftwareVersion (New scripted_bus)
        (scripted [])
      = Inr (([], Some (FailedToSendData (TransportError ''no answer''))),
             \<lparr>transport = [], trace = [TxCall 0x61 [0xD1, 0x00] 0]\<rparr>)"
    by simp
  obtain interval where e1: "GetMeasurementInterval (New scripted_bus)
        (scripted [(None, [])])
      = Inr ((interval, Some (FailedToReadData (TransportError ''no answer''))),
             \<lparr>transport = [],
                trace = [TxCall 0x61 [0x46, 0x00] 0, Sleep 150000000, TxCall 0x61 [] 3]\<rparr>)"
    by (auto simp add: run GetMeasurementInterval_def)
  with getters_zero_on_error [where d = "New scripted_bus"
      and s = "scripted [(None, [])]"
      and err = "FailedToReadData (TransportError ''no answer'')"
      and s' = "\<lparr>transport = [],
                trace = [TxCall 0x61 [0x46, 0x00] 0, Sleep 150000000, TxCall 0x61 [] 3]\<rparr>"
      and interval = interval]
  have "interval = 0"
    by blast
  with e1 have f1: "GetMeasurementInterval (New scripted_bus)
        (scripted [(None, [])])
      = Inr ((0, Some (FailedToReadData (TransportError ''no answer''))),
             \<lparr>transport = [],
                trace = [TxCall 0x61 [0x46, 0x00] 0, Sleep 150000000, TxCall 0x61 [] 3]\<rparr>)"
    by simp
  obtain enabled where e2: "GetSelfCalibration (New scripted_bus)
        (scripted [(None, []), (None, [0x00, 0x01, 0x00])])
      = Inr ((enabled, Some (CRCChecksumFailed 0x00 0xB0)),
             \<lparr>transport = [],
                trace = [TxCall 0x61 [0x53, 0x06] 0, Sleep 150000000, TxCall 0x61 [] 3]\<rparr>)"
    by (auto simp add: run GetSelfCalibration_def)
  with getters_zero_on_error [where d = "New scripted_bus"
      and s = "scripted [(None, []), (None, [0x00, 0x01, 0x00])]"
      and err = "CRCChecksumFailed 0x00 0xB0"
      and s' = "\<lparr>transport = [],
                trace = [TxCall 0x61 [0x53, 0x06] 0, Sleep 150000000, TxCall 0x61 [] 3]\<rparr>"
      and enabled = enabled]
  have "enabled = False"
    by blast
  with e2 have f2: "GetSelfCalibration (New scripted_bus)
        (scripted [(None, []), (None, [0x00, 0x01, 0x00])])
      = Inr ((False, Some (CRCChecksumFailed 0x00 0xB0)),
             \<lparr>transport = [],
                trace = [TxCall 0x61 [0x53, 0x06] 0, Sleep 150000000, TxCall 0x61 [] 3]\<rparr>)"
    by simp
  obtain v where e3: "GetForcedRecalibrationValue (New scripted_bus)
        (scripted [(None, []), (Some (TransportError ''nack''), [0x01, 0x90])])
      = Inr ((v, Some (FailedToReadData (TransportError ''nack''))),
             \<lparr>transport = [],
                trace = [TxCall 0x61 [0x52, 0x04] 0, Sleep 150000000, TxCall 0x61 [] 3]\<rparr>)"
    by (auto simp add: run GetForcedRecalibrationValue_def)
  with getters_zero_on_error [where d = "New scripted_bus"
      and s = "scripted [(None, []), (Some (TransportError ''nack''), [0x01, 0x90])]"
      and err = "FailedToReadData (TransportError ''nack'')"
      and s' = "\<lparr>transport = [],
                trace = [TxCall 0x61 [0x52, 0x04] 0, Sleep 150000000, TxCall 0x61 [] 3]\<rparr>"
      and v = v]
  have "v = 0"
    by blast
  with e3 have f3: "GetForcedRecalibrationValue (New scripted_bus)
        (scripted [(None, []), (Some (TransportError ''nack''), [0x01, 0x90])])
      = Inr ((0, Some (FailedToReadData (TransportError ''nack''))),
             \<lparr>transport = [],
                trace = [TxCall 0x61 [0x52, 0x04] 0, Sleep 150000000, TxCall 0x61 [] 3]\<rparr>)"
    by simp
  obtain offset where e4: "GetTemperatureOffset (New scripted_bus)
        (scripted [])
      = Inr ((offset, Some (FailedToSendData (TransportError ''no answer''))),
             \<lparr>transport = [], trace = [TxCall 0x61 [0x54, 0x03] 0]\<rparr>)"
    by (auto simp add: run GetTemperatureOffset_def)
  with getters_zero_on_error [where d = "New scripted_bus"
      and s = "scripted []"
      and err = "FailedToSendData (TransportError ''no answer'')"
      and s' = "\<lparr>transport = [], trace = [TxCall 0x61 [0x54, 0x03] 0]\<rparr>"
      and offset = offset]
  have "offset = 0"
    by blast
  with e4 have f4: "GetTemperatureOffset (New scripted_bus)
        (scripted [])
      = Inr ((0, Some (FailedToSendData (TransportError ''no answer''))),
             \<lparr>transport = [], trace = [TxCall 0x61 [0x54, 0x03] 0]\<rparr>)"
    by simp
  obtain altitude where e5: "GetAltitudeCompensation (New scripted_bus)
        (scripted [(None, []), (None, [0x01, 0x02, 0x03])])
      = Inr ((altitude, Some (CRCChecksumFailed 0x03 0x17)),
             \<lparr>transport = [],
                trace = [TxCall 0x61 [0x51, 0x02] 0, Sleep 150000000, TxCall 0x61 [] 3]\<rparr>)"
    by (auto simp add: run GetAltitudeCompensation_def)
  with getters_zero_on_error [where d = "New scripted_bus"
      and s = "scripted [(None, []), (None, [0x01, 0x02, 0x03])]"
      and err = "CRCChecksumFailed 0x03 0x17"
      and s' = "\<lparr>transport = [],
                trace = [TxCall 0x61 [0x51, 0x02] 0, Sleep 150000000, TxCall 0x61 [] 3]\<rparr>"
      and altitude = altitude]
  have "altitude = 0"
    by blast
  with e5 have f5: "GetAltitudeCompensation (New scripted_bus)
        (scripted [(None, []), (None, [0x01, 0x02, 0x03])])
      = Inr ((0, Some (CRCChecksumFailed 0x03 0x17)),
             \<lparr>transport = [],
                trace = [TxCall 0x61 [0x51, 0x02] 0, Sleep 150000000, TxCall 0x61 [] 3]\<rparr>)"
    by simp
  obtain isReady where e6: "HasDataReady (New scripted_bus)
        (scripted [(None, []), (None, [0x00, 0x01, 0x00])])
      = Inr ((isReady, Some (CRCChecksumFailed 0x00 0xB0)),
             \<lparr>transport = [],
                trace = [TxCall 0x61 [0x02, 0x02] 0, Sleep 150000000, TxCall 0x61 [] 3]\<rparr>)"
    by (auto simp add: run HasDataReady_def)
  with getters_zero_on_error [where d = "New scripted_bus"
      and s = "scripted [(None, []), (None, [0x00, 0x01, 0x00])]"
      and err = "CRCChecksumFailed 0x00 0xB0"
      and s' = "\<lparr>transport = [],
                trace = [TxCall 0x61 [0x02, 0x02] 0, Sleep 150000000, TxCall 0x61 [] 3]\<rparr>"
      and isReady = isReady]
  have "isReady = False"
    by blast
  with e6 have f6: "HasDataReady (New scripted_bus)
        (scripted [(None, []), (None, [0x00, 0x01, 0x00])])
      = Inr ((False, Some (CRCChecksumFailed 0x00 0xB0)),
             \<lparr>transport = [],
                trace = [TxCall 0x61 [0x02, 0x02] 0, Sleep 150000000, TxCall 0x61 [] 3]\<rparr>)"
    by simp
  obtain measurement where e7: "ReadMeasurement (New scripted_bus)
        (scripted [(None, []), (None, corrupt_chunk3)])
      = Inr ((measurement, Some (CRCChecksumFailed 0x00 0x81)),
             \<lparr>transport = [],
                trace = [TxCall 0x61 [0x03, 0x00] 0, Sleep 150000000, TxCall 0x61 [] 18]\<rparr>)"
    by (auto simp add: run ReadMeasurement_def corrupt_chunk3_def fixture_frame_def numeral_3_eq_3
        read_values_frame)
  with getters_zero_on_error [where d = "New scripted_bus"
      and s = "scripted [(None, []), (None, corrupt_chunk3)]"
      and err = "CRCChecksumFailed 0x00 0x81"
      and s' = "\<lparr>transport = [],
                trace = [TxCall 0x61 [0x03, 0x00] 0, Sleep 150000000, TxCall 0x61 [] 18]\<rparr>"
      and measurement = measurement]
  have "measurement = zero_Measurement"
    by blast
  with e7 have f7: "ReadMeasurement (New scripted_bus)
        (scripted [(None, []), (None, corrupt_chunk3)])
      = Inr ((zero_Measurement, Some (CRCChecksumFailed 0x00 0x81)),
             \<lparr>transport = [],
                trace = [TxCall 0x61 [0x03, 0x00] 0, Sleep 150000000, TxCall 0x61 [] 18]\<rparr>)"
    by simp
  from f0 f1 f2 f3 f4 f5 f6 f7 show ?thesis
    by (intro conjI)
qed

end
